theory Spec2Isabelle
  imports Complex_Main
begin

section \<open>JavaScript strings\<close>

text \<open>
  A JavaScript string is a sequence of UTF-16 code units. The model keeps that: a string
  is a list of code-unit values, \<open>js\<close> embeds an ASCII literal, and the few non-ASCII
  literals of the source (the bullet and the emoji) are written as their code units.
  The source files show those literals mis-decoded in places; they are read as the
  characters the surrounding code means (U+2022, U+1F464, U+1F3E2, U+1F4A1).
\<close>

type_synonym jsstring = "nat list"

definition js :: "string \<Rightarrow> jsstring" where
  "js s = map of_char s"

definition nl :: jsstring where
  "nl = [10]"

definition dquote :: jsstring where
  "dquote = [34]"

definition bullet :: jsstring where
  "bullet = [8226]"

definition emoji_person :: jsstring where
  "emoji_person = [55357, 56420]"

definition emoji_company :: jsstring where
  "emoji_company = [55356, 57314]"

definition emoji_bulb :: jsstring where
  "emoji_bulb = [55357, 56481]"

text \<open>Number to decimal string, as template literals and \<open>toString()\<close> render a
  non-negative integer.\<close>

fun show_nat :: "nat \<Rightarrow> jsstring" where
  "show_nat n = (if n < 10 then [48 + n] else show_nat (n div 10) @ [48 + n mod 10])"

declare show_nat.simps [simp del]

text \<open>\<open>x || d\<close> on an optional string: \<open>undefined\<close> and the empty string are falsy.\<close>

definition or_else :: "jsstring option \<Rightarrow> jsstring \<Rightarrow> jsstring" where
  "or_else x d = (case x of None \<Rightarrow> d | Some s \<Rightarrow> if s = [] then d else s)"

definition truthy :: "jsstring option \<Rightarrow> bool" where
  "truthy x = (case x of None \<Rightarrow> False | Some s \<Rightarrow> s \<noteq> [])"

text \<open>\<open>String.prototype.startsWith\<close> and \<open>String.prototype.includes\<close>.\<close>

definition startsWith :: "jsstring \<Rightarrow> jsstring \<Rightarrow> bool" where
  "startsWith s p = (take (length p) s = p)"

fun includes_js :: "jsstring \<Rightarrow> jsstring \<Rightarrow> bool" where
  "includes_js [] needle = (needle = [])"
| "includes_js (c # cs) needle = (startsWith (c # cs) needle \<or> includes_js cs needle)"

text \<open>White space and line terminators of ECMAScript, by code unit: what
  \<open>trim()\<close> strips, and what \<open>.\<close>, \<open>^\<close> and \<open>$\<close> (multiline) stop at.\<close>

definition isLineTerminator :: "nat \<Rightarrow> bool" where
  "isLineTerminator c = (c = 10 \<or> c = 13 \<or> c = 8232 \<or> c = 8233)"

definition isWhiteSpace :: "nat \<Rightarrow> bool" where
  "isWhiteSpace c =
     (c = 9 \<or> c = 11 \<or> c = 12 \<or> c = 32 \<or> c = 160 \<or> c = 5760 \<or> (8192 \<le> c \<and> c \<le> 8202)
      \<or> c = 8239 \<or> c = 8287 \<or> c = 12288 \<or> c = 65279 \<or> isLineTerminator c)"

definition trim :: "jsstring \<Rightarrow> jsstring" where
  "trim s = rev (dropWhile isWhiteSpace (rev (dropWhile isWhiteSpace s)))"

section \<open>Thrown values and HTTP answers\<close>

text \<open>What a \<open>throw\<close> or a rejected promise carries: an \<open>Error\<close> with its message,
  or some other value. \<open>error_message\<close> is the source's
  \<open>error instanceof Error ? error.message : "Unknown error"\<close>.\<close>

datatype thrown = Error jsstring | NonError

definition error_message :: "thrown \<Rightarrow> jsstring" where
  "error_message e = (case e of Error m \<Rightarrow> m | NonError \<Rightarrow> js ''Unknown error'')"

text \<open>The answer of a collaborator to one HTTP request: the request or the reading of
  its body rejects, or the response is not ok (status and body text), or it is ok and
  its JSON body is read.\<close>

datatype 'a http = Rejected thrown | NotOk nat jsstring | Ok 'a

section \<open>The Exa client (backend/exa/client.ts)\<close>

datatype entity_type = Person | Company

datatype research_status = Pending | Running | Completed | Canceled | Failed

record research_source =
  src_url :: jsstring
  src_title :: jsstring

record ExaResearchCreateResponse =
  cr_researchId :: jsstring
  cr_status :: research_status

record ExaResearchGetResponse =
  gr_status :: research_status
  gr_output :: "jsstring option"
  gr_sources :: "research_source list option"
  gr_error :: "jsstring option"

record ExaSearchResult =
  sr_id :: "jsstring option"
  sr_title :: "jsstring option"
  sr_url :: "jsstring option"
  sr_text :: "jsstring option"
  sr_highlights :: "jsstring list option"

record ExaSearchResponse =
  results :: "ExaSearchResult list option"

record search_request =
  rq_query :: jsstring
  rq_numResults :: nat
  rq_category :: jsstring
  rq_maxCharacters :: nat
  rq_numSentences :: nat
  rq_highlightsPerUrl :: nat

text \<open>The world the client talks to: the configured key, and the answers of the three
  endpoints. \<open>getResearch api rid n\<close> is the answer to the \<open>n\<close>-th GET for task
  \<open>rid\<close>.\<close>

record exa_api =
  exaApiKey :: "jsstring option"
  postResearch :: "jsstring \<Rightarrow> jsstring \<Rightarrow> ExaResearchCreateResponse http"
  getResearch :: "jsstring \<Rightarrow> nat \<Rightarrow> ExaResearchGetResponse http"
  postSearch :: "search_request \<Rightarrow> ExaSearchResponse http"

definition getApiKey :: "exa_api \<Rightarrow> thrown + jsstring" where
  "getApiKey api =
     (if \<not> truthy (exaApiKey api)
      then Inl (Error (js ''Exa API key not configured. Please set the exaApiKey variable using `forge variables set exaApiKey <your-key>`''))
      else Inr (the (exaApiKey api)))"

definition exaApiError :: "nat \<Rightarrow> jsstring \<Rightarrow> thrown" where
  "exaApiError st txt = Error (js ''Exa API error: '' @ show_nat st @ js '' - '' @ txt)"

definition makeExaRequest :: "exa_api \<Rightarrow> 'a http \<Rightarrow> thrown + 'a" where
  "makeExaRequest api response =
     (case getApiKey api of
        Inl e \<Rightarrow> Inl e
      | Inr apiKey \<Rightarrow>
          (case response of
             Rejected e \<Rightarrow> Inl e
           | NotOk st txt \<Rightarrow> Inl (exaApiError st txt)
           | Ok d \<Rightarrow> Inr d))"

definition makeExaGetRequest :: "exa_api \<Rightarrow> 'a http \<Rightarrow> thrown + 'a" where
  "makeExaGetRequest api response =
     (case getApiKey api of
        Inl e \<Rightarrow> Inl e
      | Inr apiKey \<Rightarrow>
          (case response of
             Rejected e \<Rightarrow> Inl e
           | NotOk st txt \<Rightarrow> Inl (exaApiError st txt)
           | Ok d \<Rightarrow> Inr d))"

definition instructions :: "jsstring \<Rightarrow> entity_type \<Rightarrow> jsstring" where
  "instructions query entityType =
     (if entityType = Person
      then js ''Research and provide a comprehensive profile of '' @ query @ js ''. Include:'' @ nl
         @ js ''- Professional background and current role'' @ nl
         @ js ''- Career history and notable achievements'' @ nl
         @ js ''- Education and qualifications'' @ nl
         @ js ''- Skills and areas of expertise'' @ nl
         @ js ''- Any public presence (LinkedIn, Twitter, publications)'' @ nl
         @ js ''- Recent news or mentions'' @ nl
         @ js ''Provide specific details with citations where available.''
      else js ''Research and provide a comprehensive overview of the company '' @ query @ js ''. Include:'' @ nl
         @ js ''- Company overview and what they do'' @ nl
         @ js ''- Founding date, headquarters, and key leadership'' @ nl
         @ js ''- Products or services offered'' @ nl
         @ js ''- Industry and market position'' @ nl
         @ js ''- Funding history and financial status (if available)'' @ nl
         @ js ''- Recent news, partnerships, or notable developments'' @ nl
         @ js ''- Company culture and employee count (if available)'' @ nl
         @ js ''Provide specific details with citations where available.'')"

definition maxAttempts :: nat where
  "maxAttempts = 30"

definition initialDelay :: rat where
  "initialDelay = 2000"

definition maxDelay :: rat where
  "maxDelay = 30000"

text \<open>The factor \<open>1.5\<close> of \<open>delay * 1.5\<close>. Every delay the loop computes
  (2000, 3000, 4500, 6750, 10125, 15187.5, 22781.25, 30000) is a double without
  rounding, so exact rationals compute what the doubles do.\<close>

definition backoffFactor :: rat where
  "backoffFactor = 3 / 2"

text \<open>The text returned for a completed task: the output, then the numbered sources.
  \<open>appendSource\<close> is one step of the source's \<open>forEach\<close> with its index.\<close>

definition appendSource :: "jsstring \<Rightarrow> nat \<times> research_source \<Rightarrow> jsstring" where
  "appendSource result p =
     result @ show_nat (fst p + 1) @ js ''. ['' @ src_title (snd p) @ js ''](''
       @ src_url (snd p) @ js '')'' @ nl"

definition completedResult :: "ExaResearchGetResponse \<Rightarrow> jsstring" where
  "completedResult statusResponse =
     (let result = or_else (gr_output statusResponse) (js ''No research output available.'')
      in case gr_sources statusResponse of
           None \<Rightarrow> result
         | Some srcs \<Rightarrow>
             if 0 < length srcs
             then foldl appendSource (result @ nl @ nl @ js ''**Sources:**'' @ nl)
                    (enumerate 0 srcs)
             else result)"

text \<open>The poll loop, from attempt \<open>attempt\<close> with the current \<open>delay\<close>. It returns
  what the loop returns or throws, and the delays it slept, one per poll, in order.\<close>

function pollLoop ::
  "exa_api \<Rightarrow> jsstring \<Rightarrow> nat \<Rightarrow> rat \<Rightarrow> (thrown + jsstring) \<times> rat list" where
  "pollLoop api researchId attempt delay =
     (if attempt \<le> maxAttempts then
        (case makeExaGetRequest api (getResearch api researchId attempt) of
           Inl e \<Rightarrow> (Inl e, [delay])
         | Inr statusResponse \<Rightarrow>
             if gr_status statusResponse = Completed
               then (Inr (completedResult statusResponse), [delay])
             else if gr_status statusResponse = Failed
               then (Inl (Error (js ''Research failed: ''
                        @ or_else (gr_error statusResponse) (js ''Unknown error''))), [delay])
             else if gr_status statusResponse = Canceled
               then (Inl (Error (js ''Research task was canceled'')), [delay])
             else (let r = pollLoop api researchId (attempt + 1)
                             (min (delay * backoffFactor) maxDelay)
                   in (fst r, delay # snd r)))
      else (Inl (Error (js ''Research timed out. The request is taking longer than expected.'')), []))"
  by pat_completeness auto
termination
  by (relation "measure (\<lambda>(api, researchId, attempt, delay). Suc maxAttempts - attempt)") auto

declare pollLoop.simps [simp del]

text \<open>The body of the \<open>try\<close> in \<open>deepResearch\<close>: create the task, then poll.\<close>

definition researchTask ::
  "exa_api \<Rightarrow> jsstring \<Rightarrow> entity_type \<Rightarrow> (thrown + jsstring) \<times> rat list" where
  "researchTask api query entityType =
     (case makeExaRequest api
             (postResearch api (instructions query entityType) (js ''exa-research-fast'')) of
        Inl e \<Rightarrow> (Inl e, [])
      | Inr createResponse \<Rightarrow> pollLoop api (cr_researchId createResponse) 1 initialDelay)"

definition enhancedQuery :: "jsstring \<Rightarrow> entity_type \<Rightarrow> jsstring" where
  "enhancedQuery query entityType =
     (if entityType = Person
      then js ''Detailed profile and background information about '' @ query
      else js ''Company profile, overview, and detailed information about '' @ query)"

definition fallbackRequest :: "jsstring \<Rightarrow> entity_type \<Rightarrow> search_request" where
  "fallbackRequest query entityType =
     \<lparr> rq_query = enhancedQuery query entityType,
       rq_numResults = 5,
       rq_category = (if entityType = Person then js ''people'' else js ''company''),
       rq_maxCharacters = 3000,
       rq_numSentences = 5,
       rq_highlightsPerUrl = 5 \<rparr>"

definition appendFallbackResult :: "jsstring \<Rightarrow> nat \<times> ExaSearchResult \<Rightarrow> jsstring" where
  "appendFallbackResult output p =
     (let result = snd p;
          o1 = output @ js ''**'' @ show_nat (fst p + 1) @ js ''. ''
                 @ or_else (sr_title result) (js ''Unknown'') @ js ''**'' @ nl;
          o2 = (if truthy (sr_url result)
                then o1 @ js ''Source: '' @ the (sr_url result) @ nl else o1);
          o3 = (if truthy (sr_text result)
                then o2 @ nl @ take 1500 (the (sr_text result)) @ nl else o2);
          o4 = (case sr_highlights result of
                  None \<Rightarrow> o3
                | Some hs \<Rightarrow>
                    if 0 < length hs
                    then foldl (\<lambda>acc highlight. acc @ bullet @ js '' '' @ highlight @ nl)
                           (o3 @ nl @ js ''Key points:'' @ nl) (take 3 hs)
                    else o3)
      in o4 @ nl @ js ''---'' @ nl @ nl)"

definition fallbackDeepSearch :: "exa_api \<Rightarrow> jsstring \<Rightarrow> entity_type \<Rightarrow> thrown + jsstring" where
  "fallbackDeepSearch api query entityType =
     (case makeExaRequest api (postSearch api (fallbackRequest query entityType)) of
        Inl e \<Rightarrow> Inl e
      | Inr response \<Rightarrow>
          (let rs = (case results response of None \<Rightarrow> [] | Some xs \<Rightarrow> xs)
           in if length rs = 0
              then Inr (js ''No detailed information found for '' @ query @ js ''.'')
              else Inr (foldl appendFallbackResult
                          (js ''**Research Results for '' @ query @ js ''**'' @ nl @ nl)
                          (enumerate 0 rs))))"

text \<open>\<open>deepResearch\<close> of the client, imported by its callers as \<open>exaDeepResearch\<close>:
  whatever the \<open>try\<close> throws is caught and answered by the fallback search.\<close>

definition exaDeepResearch :: "exa_api \<Rightarrow> jsstring \<Rightarrow> entity_type \<Rightarrow> thrown + jsstring" where
  "exaDeepResearch api query entityType =
     (case fst (researchTask api query entityType) of
        Inr result \<Rightarrow> Inr result
      | Inl e \<Rightarrow> fallbackDeepSearch api query entityType)"

section \<open>The content formatter (backend/confluence/pages.ts)\<close>

text \<open>
  \<open>s.replace(re, ...)\<close> with a global regular expression scans \<open>s\<close> from the left:
  where the expression matches, the replacement is emitted and the scan goes on behind
  the match; elsewhere one code unit is copied. A pattern is modelled by its matcher:
  given the code unit before the position (\<open>None\<close> at the start of the input, for
  \<open>^\<close> and the lookbehind) and the input from the position on, it answers the
  replacement and the length of the match. Every pattern below matches at least one code
  unit, and each is deterministic: its greedy runs are delimited by a code unit the run
  excludes, so backtracking finds no other match.
\<close>

type_synonym matcher = "nat option \<Rightarrow> jsstring \<Rightarrow> (jsstring \<times> nat) option"

function replaceGlobal :: "matcher \<Rightarrow> nat option \<Rightarrow> jsstring \<Rightarrow> jsstring" where
  "replaceGlobal m prev [] = []"
| "replaceGlobal m prev (c # cs) =
     (case m prev (c # cs) of
        None \<Rightarrow> c # replaceGlobal m (Some c) cs
      | Some (rep, n) \<Rightarrow>
          if 0 < n \<and> n \<le> length (c # cs)
          then rep @ replaceGlobal m (Some ((c # cs) ! (n - 1))) (drop n (c # cs))
          else c # replaceGlobal m (Some c) cs)"
  by pat_completeness auto
termination
  by (relation "measure (\<lambda>(m, prev, s). length s)") auto

definition atLineStart :: "nat option \<Rightarrow> bool" where
  "atLineStart prev = (case prev of None \<Rightarrow> True | Some c \<Rightarrow> isLineTerminator c)"

definition isDigit :: "nat \<Rightarrow> bool" where
  "isDigit c = (48 \<le> c \<and> c \<le> 57)"

text \<open>\<open>/\*\*([^*]+)\*\*/g\<close> to \<open><strong>$1</strong>\<close>.\<close>

definition matchBold :: matcher where
  "matchBold prev s =
     (if startsWith s (js ''**'') then
        (let body = takeWhile (\<lambda>c. c \<noteq> 42) (drop 2 s);
             rest = drop (2 + length body) s
         in if body \<noteq> [] \<and> startsWith rest (js ''**'')
            then Some (js ''<strong>'' @ body @ js ''</strong>'', length body + 4)
            else None)
      else None)"

text \<open>\<open>/(?<!\*)\*([^*]+)\*(?!\*)/g\<close> to \<open><em>$1</em>\<close>.\<close>

definition matchItalic :: matcher where
  "matchItalic prev s =
     (if prev \<noteq> Some 42 \<and> startsWith s (js ''*'') then
        (let body = takeWhile (\<lambda>c. c \<noteq> 42) (drop 1 s);
             rest = drop (1 + length body) s
         in if body \<noteq> [] \<and> startsWith rest (js ''*'') \<and> \<not> startsWith (drop 1 rest) (js ''*'')
            then Some (js ''<em>'' @ body @ js ''</em>'', length body + 2)
            else None)
      else None)"

text \<open>\<open>/^### (.+)$/gm\<close> and its two siblings: \<open>pre\<close> is the marker with its
  space, \<open>tag\<close> the element.\<close>

definition matchHeading :: "jsstring \<Rightarrow> jsstring \<Rightarrow> matcher" where
  "matchHeading pre tag prev s =
     (if atLineStart prev \<and> startsWith s pre then
        (let body = takeWhile (\<lambda>c. \<not> isLineTerminator c) (drop (length pre) s)
         in if body \<noteq> []
            then Some (js ''<'' @ tag @ js ''>'' @ body @ js ''</'' @ tag @ js ''>'',
                       length pre + length body)
            else None)
      else None)"

text \<open>One repetition of the list patterns, \<open>^[-\<bullet>] .+$\n?\<close> and
  \<open>^\d+\. .+$\n?\<close>, at a line start: the length it matches.\<close>

definition matchBulletLine :: "jsstring \<Rightarrow> nat option" where
  "matchBulletLine s =
     (if startsWith s (js ''- '') \<or> startsWith s (bullet @ js '' '') then
        (let body = takeWhile (\<lambda>c. \<not> isLineTerminator c) (drop 2 s);
             rest = drop (2 + length body) s
         in if body \<noteq> []
            then Some (2 + length body + (if startsWith rest nl then 1 else 0))
            else None)
      else None)"

definition matchNumberLine :: "jsstring \<Rightarrow> nat option" where
  "matchNumberLine s =
     (let ds = takeWhile isDigit s in
      if ds \<noteq> [] \<and> startsWith (drop (length ds) s) (js ''. '') then
        (let body = takeWhile (\<lambda>c. \<not> isLineTerminator c) (drop (length ds + 2) s);
             rest = drop (length ds + 2 + length body) s
         in if body \<noteq> []
            then Some (length ds + 2 + length body + (if startsWith rest nl then 1 else 0))
            else None)
      else None)"

text \<open>The greedy repetition \<open>(?: ... )+\<close> of a line pattern: another repetition can
  follow only behind a consumed newline, where \<open>^\<close> holds again. The result is the
  length of the whole match, 0 when the first repetition fails.\<close>

function lineRun :: "(jsstring \<Rightarrow> nat option) \<Rightarrow> jsstring \<Rightarrow> nat" where
  "lineRun line s =
     (case line s of
        None \<Rightarrow> 0
      | Some n \<Rightarrow>
          if 0 < n \<and> n \<le> length s \<and> s ! (n - 1) = 10
          then n + lineRun line (drop n s)
          else n)"
  by pat_completeness auto
termination
  by (relation "measure (\<lambda>(line, s). length s)") auto

declare lineRun.simps [simp del]

text \<open>\<open>split("\n")\<close>, \<open>join(sep)\<close>, and the two replacement callbacks.\<close>

fun splitNewline :: "jsstring \<Rightarrow> jsstring list" where
  "splitNewline [] = [[]]"
| "splitNewline (c # cs) =
     (if c = 10 then [] # splitNewline cs
      else (case splitNewline cs of [] \<Rightarrow> [[c]] | p # ps \<Rightarrow> (c # p) # ps))"

fun joinWith :: "jsstring \<Rightarrow> jsstring list \<Rightarrow> jsstring" where
  "joinWith sep [] = []"
| "joinWith sep [x] = x"
| "joinWith sep (x # y # ys) = x @ sep @ joinWith sep (y # ys)"

definition stripBulletMarker :: "jsstring \<Rightarrow> jsstring" where
  "stripBulletMarker line =
     (if startsWith line (js ''- '') \<or> startsWith line (bullet @ js '' '') then drop 2 line
      else line)"

definition stripNumberMarker :: "jsstring \<Rightarrow> jsstring" where
  "stripNumberMarker line =
     (let ds = takeWhile isDigit line in
      if ds \<noteq> [] \<and> startsWith (drop (length ds) line) (js ''. '')
      then drop (length ds + 2) line else line)"

definition listItems :: "(jsstring \<Rightarrow> jsstring) \<Rightarrow> jsstring \<Rightarrow> jsstring" where
  "listItems strip match =
     joinWith nl
       (map (\<lambda>line. js ''<li>'' @ trim (strip line) @ js ''</li>'')
          (filter (\<lambda>line. trim line \<noteq> []) (splitNewline match)))"

definition matchBulletList :: matcher where
  "matchBulletList prev s =
     (if atLineStart prev then
        (let n = lineRun matchBulletLine s
         in if 0 < n
            then Some (js ''<ul>'' @ nl @ listItems stripBulletMarker (take n s) @ nl
                         @ js ''</ul>'' @ nl, n)
            else None)
      else None)"

definition matchNumberList :: matcher where
  "matchNumberList prev s =
     (if atLineStart prev then
        (let n = lineRun matchNumberLine s
         in if 0 < n
            then Some (js ''<ol>'' @ nl @ listItems stripNumberMarker (take n s) @ nl
                         @ js ''</ol>'' @ nl, n)
            else None)
      else None)"

text \<open>\<open>/\[([^\]]+)\]\(([^)]+)\)/g\<close> to \<open><a href="$2">$1</a>\<close>.\<close>

definition matchLink :: matcher where
  "matchLink prev s =
     (if startsWith s (js ''['') then
        (let text = takeWhile (\<lambda>c. c \<noteq> 93) (drop 1 s);
             r1 = drop (1 + length text) s
         in if text \<noteq> [] \<and> startsWith r1 (js '']('') then
              (let url = takeWhile (\<lambda>c. c \<noteq> 41) (drop 2 r1);
                   r2 = drop (2 + length url) r1
               in if url \<noteq> [] \<and> startsWith r2 (js '')'')
                  then Some (js ''<a href='' @ dquote @ url @ dquote @ js ''>'' @ text @ js ''</a>'',
                             length text + length url + 4)
                  else None)
            else None)
      else None)"

text \<open>\<open>/^---+$/gm\<close> to \<open><hr/>\<close>.\<close>

definition matchRule :: matcher where
  "matchRule prev s =
     (if atLineStart prev then
        (let dashes = takeWhile (\<lambda>c. c = 45) s;
             rest = drop (length dashes) s
         in if 3 \<le> length dashes \<and> (rest = [] \<or> isLineTerminator (hd rest))
            then Some (js ''<hr/>'', length dashes)
            else None)
      else None)"

text \<open>\<open>split(/\n\n+/)\<close>: the pieces between the runs of two or more newlines.\<close>

function splitParagraphs :: "jsstring \<Rightarrow> jsstring list" where
  "splitParagraphs [] = [[]]"
| "splitParagraphs (c # cs) =
     (if c = 10 \<and> startsWith cs nl then [] # splitParagraphs (dropWhile (\<lambda>x. x = 10) cs)
      else (case splitParagraphs cs of [] \<Rightarrow> [[c]] | p # ps \<Rightarrow> (c # p) # ps))"
  by pat_completeness auto
termination
  by (relation "measure length") (auto simp: less_Suc_eq_le length_dropWhile_le)

definition replaceChar :: "nat \<Rightarrow> jsstring \<Rightarrow> jsstring \<Rightarrow> jsstring" where
  "replaceChar c rep s = concat (map (\<lambda>x. if x = c then rep else [x]) s)"

definition wrapParagraph :: "jsstring \<Rightarrow> jsstring" where
  "wrapParagraph p =
     (let trimmed = trim p in
      if startsWith trimmed (js ''<h'') \<or> startsWith trimmed (js ''<ul'')
         \<or> startsWith trimmed (js ''<ol'') \<or> startsWith trimmed (js ''<hr'')
         \<or> startsWith trimmed (js ''<p'')
      then trimmed
      else if 0 < length trimmed
      then js ''<p>'' @ replaceChar 10 (js ''<br/>'') trimmed @ js ''</p>''
      else [])"

definition escapeHtml :: "jsstring \<Rightarrow> jsstring" where
  "escapeHtml text =
     replaceChar 39 (js ''&#039;'')
       (replaceChar 34 (js ''&quot;'')
          (replaceChar 62 (js ''&gt;'')
             (replaceChar 60 (js ''&lt;'')
                (replaceChar 38 (js ''&amp;'') text))))"

text \<open>The argument \<open>markdown: string | unknown\<close>: a string, another truthy value
  (carried as its \<open>JSON.stringify(markdown, null, 2)\<close>), or a falsy value.\<close>

datatype markdown_input = MdString jsstring | MdOther jsstring | MdFalsy

definition pageHeader :: "jsstring \<Rightarrow> entity_type \<Rightarrow> jsstring \<Rightarrow> jsstring" where
  "pageHeader leadName entityType today =
     (let emoji = (if entityType = Person then emoji_person else emoji_company);
          typeLabel = (if entityType = Person then js ''Person'' else js ''Company'')
      in nl
       @ js ''<ac:structured-macro ac:name='' @ dquote @ js ''info'' @ dquote @ js ''>'' @ nl
       @ js ''  <ac:rich-text-body>'' @ nl
       @ js ''    <p><strong>'' @ emoji @ js '' '' @ typeLabel @ js '' Lead Research</strong></p>'' @ nl
       @ js ''    <p>This page contains AI-generated research about <strong>''
           @ escapeHtml leadName @ js ''</strong>.</p>'' @ nl
       @ js ''    <p><em>Generated by Tofu on '' @ today @ js ''</em></p>'' @ nl
       @ js ''  </ac:rich-text-body>'' @ nl
       @ js ''</ac:structured-macro>'' @ nl
       @ nl
       @ js ''<h1>Research: '' @ escapeHtml leadName @ js ''</h1>'' @ nl)"

definition pageFooter :: jsstring where
  "pageFooter =
     nl
     @ js ''<hr/>'' @ nl
     @ js ''<ac:structured-macro ac:name='' @ dquote @ js ''note'' @ dquote @ js ''>'' @ nl
     @ js ''  <ac:rich-text-body>'' @ nl
     @ js ''    <p><strong>About this research</strong></p>'' @ nl
     @ js ''    <p>This research was generated using Exa AI'' @ [39] @ js ''s research capabilities. '' @ nl
     @ js ''    The information should be verified before taking action.</p>'' @ nl
     @ js ''  </ac:rich-text-body>'' @ nl
     @ js ''</ac:structured-macro>'' @ nl"

text \<open>The passes over the report, in the order of the source. \<open>today\<close> is
  \<open>new Date().toLocaleDateString()\<close>.\<close>

definition convertContent :: "jsstring \<Rightarrow> jsstring" where
  "convertContent markdownStr =
     (let c1 = replaceGlobal matchBold None markdownStr;
          c2 = replaceGlobal matchItalic None c1;
          c3 = replaceGlobal (matchHeading (js ''### '') (js ''h3'')) None c2;
          c4 = replaceGlobal (matchHeading (js ''## '') (js ''h2'')) None c3;
          c5 = replaceGlobal (matchHeading (js ''# '') (js ''h1'')) None c4;
          c6 = replaceGlobal matchBulletList None c5;
          c7 = replaceGlobal matchNumberList None c6;
          c8 = replaceGlobal matchLink None c7;
          c9 = replaceGlobal matchRule None c8;
          paragraphs = splitParagraphs c9
      in joinWith (nl @ nl) (filter (\<lambda>p. 0 < length p) (map wrapParagraph paragraphs)))"

definition convertResearchToStorageFormat ::
  "markdown_input \<Rightarrow> jsstring \<Rightarrow> entity_type \<Rightarrow> jsstring \<Rightarrow> jsstring" where
  "convertResearchToStorageFormat markdown leadName entityType today =
     (let markdownStr = (case markdown of
                           MdString s \<Rightarrow> s
                         | MdOther json \<Rightarrow> json
                         | MdFalsy \<Rightarrow> js ''No research content available.'')
      in pageHeader leadName entityType today @ convertContent markdownStr @ pageFooter)"

section \<open>The key-value store\<close>

text \<open>
  The store is a flat map from string keys to JSON values. A value has one of the shapes
  the application writes. \<open>fault\<close> is the state of the collaborator: when it is set,
  every \<open>kvs.get\<close> and \<open>kvs.set\<close> rejects with it and stores nothing.
\<close>

datatype job_status = StatusQueued | StatusCompleted | StatusFailed

datatype lead_status = LeadPending | LeadAccepted | LeadRejected | LeadContacted

datatype search_type = People | Companies

record job_record =
  job_query :: jsstring
  job_entityType :: entity_type
  job_userId :: jsstring
  job_cloudId :: jsstring
  job_jobId :: "jsstring option"
  job_status :: job_status
  job_createdAt :: "jsstring option"
  job_pageUrl :: "jsstring option"
  job_pageTitle :: "jsstring option"
  job_error :: "jsstring option"
  job_completedAt :: "jsstring option"

record ResearchResult =
  rr_jobId :: jsstring
  rr_success :: bool
  rr_query :: jsstring
  rr_entityType :: entity_type
  rr_pageUrl :: "jsstring option"
  rr_pageTitle :: "jsstring option"
  rr_error :: "jsstring option"
  rr_completedAt :: jsstring

record PersonLead =
  pl_id :: jsstring
  pl_name :: jsstring
  pl_profileUrl :: "jsstring option"
  pl_summary :: "jsstring option"
  pl_foundAt :: jsstring
  pl_source :: jsstring
  pl_status :: lead_status

record CompanyLead =
  cl_id :: jsstring
  cl_name :: jsstring
  cl_website :: "jsstring option"
  cl_summary :: "jsstring option"
  cl_foundAt :: jsstring
  cl_source :: jsstring
  cl_status :: lead_status

record SearchHistoryItem =
  h_id :: jsstring
  h_query :: jsstring
  h_searchType :: search_type
  h_timestamp :: jsstring
  h_resultCount :: nat

record TofuConfig =
  defaultConfluenceSpace :: "jsstring option"
  confluenceSpaceKey :: "jsstring option"

datatype kvs_value =
    VJob job_record
  | VResult ResearchResult
  | VPersonLeads "PersonLead list"
  | VCompanyLeads "CompanyLead list"
  | VHistory "SearchHistoryItem list"
  | VConfig TofuConfig

record kvs =
  entries :: "jsstring \<Rightarrow> kvs_value option"
  fault :: "thrown option"

definition kvs_get :: "kvs \<Rightarrow> jsstring \<Rightarrow> thrown + kvs_value option" where
  "kvs_get s key = (case fault s of Some e \<Rightarrow> Inl e | None \<Rightarrow> Inr (entries s key))"

definition kvs_set :: "kvs \<Rightarrow> jsstring \<Rightarrow> kvs_value \<Rightarrow> thrown + kvs" where
  "kvs_set s key v =
     (case fault s of
        Some e \<Rightarrow> Inl e
      | None \<Rightarrow> Inr (s\<lparr> entries := (entries s)(key \<mapsto> v) \<rparr>))"

section \<open>Confluence pages as the app (backend/confluence/pages.ts)\<close>

record ConfluenceSpace =
  sp_id :: jsstring
  sp_key :: jsstring
  sp_name :: jsstring

record ConfluencePageResponse =
  pg_id :: jsstring
  pg_title :: jsstring
  pg_webui :: jsstring

record page_payload =
  pp_spaceId :: jsstring
  pp_status :: jsstring
  pp_title :: jsstring
  pp_representation :: jsstring
  pp_value :: jsstring
  pp_parentId :: "jsstring option"

record CreatePageOptions =
  o_spaceKey :: jsstring
  o_title :: jsstring
  o_body :: jsstring
  o_parentId :: "jsstring option"
  o_format :: "jsstring option"

record page_result =
  pageId :: jsstring
  pageUrl :: jsstring
  title :: jsstring

text \<open>What Confluence answers to the app: \<open>listSpaces n\<close> to the \<open>n\<close>-th listing of
  the spaces in one invocation (the body's \<open>results\<close> may be missing),
  \<open>findSpace key\<close> to the lookup of a space by key (the ids of the results, each
  possibly missing), \<open>postPage\<close> to the creation of a page.\<close>

record confluence_api =
  listSpaces :: "nat \<Rightarrow> ConfluenceSpace list option http"
  findSpace :: "jsstring \<Rightarrow> jsstring option list option http"
  postPage :: "page_payload \<Rightarrow> ConfluencePageResponse http"

definition getSpacesAsApp :: "confluence_api \<Rightarrow> nat \<Rightarrow> ConfluenceSpace list" where
  "getSpacesAsApp cf n =
     (case listSpaces cf n of
        Rejected e \<Rightarrow> []
      | NotOk st txt \<Rightarrow> []
      | Ok data \<Rightarrow> (case data of None \<Rightarrow> [] | Some rs \<Rightarrow> rs))"

definition getDefaultSpaceKeyAsApp :: "confluence_api \<Rightarrow> nat \<Rightarrow> jsstring option" where
  "getDefaultSpaceKeyAsApp cf n =
     (case getSpacesAsApp cf n of [] \<Rightarrow> None | sp # rest \<Rightarrow> Some (sp_key sp))"

definition createPageAsApp :: "confluence_api \<Rightarrow> CreatePageOptions \<Rightarrow> page_result option" where
  "createPageAsApp cf options =
     (case findSpace cf (o_spaceKey options) of
        Rejected e \<Rightarrow> None
      | NotOk st txt \<Rightarrow> None
      | Ok spaceData \<Rightarrow>
          (case spaceData of
             None \<Rightarrow> None
           | Some [] \<Rightarrow> None
           | Some (first # rest) \<Rightarrow>
               if \<not> truthy first then None
               else
                 (case postPage cf
                         \<lparr> pp_spaceId = the first, pp_status = js ''current'',
                           pp_title = o_title options,
                           pp_representation = (case o_format options of
                                                  None \<Rightarrow> js ''storage'' | Some f \<Rightarrow> f),
                           pp_value = o_body options,
                           pp_parentId = (if truthy (o_parentId options)
                                          then o_parentId options else None) \<rparr> of
                    Rejected e \<Rightarrow> None
                  | NotOk st txt \<Rightarrow> None
                  | Ok page \<Rightarrow>
                      Some \<lparr> pageId = pg_id page, pageUrl = pg_webui page,
                             title = pg_title page \<rparr>)))"

section \<open>The consumer (backend/consumers/deepResearchConsumer.ts)\<close>

record DeepResearchEventPayload =
  ev_query :: jsstring
  ev_entityType :: entity_type
  ev_userId :: jsstring
  ev_cloudId :: jsstring
  ev_spaceKey :: "jsstring option"
  ev_researchId :: jsstring

text \<open>What one invocation reads from its surroundings besides the HTTP answers:
  the date for the page banner and the two \<open>new Date().toISOString()\<close> of the
  records it writes (the result record, then the job record).\<close>

record handler_clock =
  bannerDate :: jsstring
  resultTime :: jsstring
  jobTime :: jsstring

definition resultKey :: "jsstring \<Rightarrow> jsstring" where
  "resultKey researchId = js ''research-result-'' @ researchId"

definition jobKey :: "jsstring \<Rightarrow> jsstring" where
  "jobKey researchId = js ''research-job-'' @ researchId"

text \<open>The choice of the space: the configured key, else the first space of a first
  listing, else the first space of a second listing, else the error.\<close>

definition targetSpace :: "confluence_api \<Rightarrow> jsstring option \<Rightarrow> thrown + jsstring" where
  "targetSpace cf spaceKey =
     (if truthy spaceKey then Inr (the spaceKey)
      else
        (let defaultSpace = getDefaultSpaceKeyAsApp cf 0 in
         if truthy defaultSpace then Inr (the defaultSpace)
         else
           (case getSpacesAsApp cf 1 of
              sp # rest \<Rightarrow> Inr (sp_key sp)
            | [] \<Rightarrow> Inl (Error (js ''No Confluence spaces available. Please create a space first.'')))))"

text \<open>The body of the \<open>try\<close>, in two parts. First the steps that touch no store:
  research, choice of the space, conversion, creation of the page; they end in the page
  or in what was thrown. Then the two writes.\<close>

definition researchAndPublish ::
  "exa_api \<Rightarrow> confluence_api \<Rightarrow> handler_clock \<Rightarrow> DeepResearchEventPayload
     \<Rightarrow> thrown + page_result" where
  "researchAndPublish api cf clk payload =
     (case exaDeepResearch api (ev_query payload) (ev_entityType payload) of
        Inl e \<Rightarrow> Inl e
      | Inr researchOutput \<Rightarrow>
          (case targetSpace cf (ev_spaceKey payload) of
             Inl e \<Rightarrow> Inl e
           | Inr targetSpaceKey \<Rightarrow>
               (let pageTitle = js ''Research: '' @ ev_query payload;
                    htmlBody = convertResearchToStorageFormat (MdString researchOutput)
                                 (ev_query payload) (ev_entityType payload) (bannerDate clk)
                in case createPageAsApp cf
                          \<lparr> o_spaceKey = targetSpaceKey, o_title = pageTitle, o_body = htmlBody,
                            o_parentId = None, o_format = Some (js ''storage'') \<rparr> of
                     None \<Rightarrow> Inl (Error (js ''Failed to create Confluence page''))
                   | Some pageResult \<Rightarrow> Inr pageResult)))"

definition completedResult_record ::
  "handler_clock \<Rightarrow> DeepResearchEventPayload \<Rightarrow> page_result \<Rightarrow> ResearchResult" where
  "completedResult_record clk payload pageResult =
     \<lparr> rr_jobId = ev_researchId payload, rr_success = True,
       rr_query = ev_query payload, rr_entityType = ev_entityType payload,
       rr_pageUrl = Some (pageUrl pageResult), rr_pageTitle = Some (title pageResult),
       rr_error = None, rr_completedAt = resultTime clk \<rparr>"

definition completedJob ::
  "handler_clock \<Rightarrow> DeepResearchEventPayload \<Rightarrow> page_result \<Rightarrow> job_record" where
  "completedJob clk payload pageResult =
     \<lparr> job_query = ev_query payload, job_entityType = ev_entityType payload,
       job_userId = ev_userId payload, job_cloudId = ev_cloudId payload,
       job_jobId = None, job_status = StatusCompleted, job_createdAt = None,
       job_pageUrl = Some (pageUrl pageResult), job_pageTitle = Some (title pageResult),
       job_error = None, job_completedAt = Some (jobTime clk) \<rparr>"

definition failedResult_record ::
  "handler_clock \<Rightarrow> DeepResearchEventPayload \<Rightarrow> thrown \<Rightarrow> ResearchResult" where
  "failedResult_record clk payload error =
     \<lparr> rr_jobId = ev_researchId payload, rr_success = False,
       rr_query = ev_query payload, rr_entityType = ev_entityType payload,
       rr_pageUrl = None, rr_pageTitle = None,
       rr_error = Some (error_message error), rr_completedAt = resultTime clk \<rparr>"

definition failedJob ::
  "handler_clock \<Rightarrow> DeepResearchEventPayload \<Rightarrow> thrown \<Rightarrow> job_record" where
  "failedJob clk payload error =
     \<lparr> job_query = ev_query payload, job_entityType = ev_entityType payload,
       job_userId = ev_userId payload, job_cloudId = ev_cloudId payload,
       job_jobId = None, job_status = StatusFailed, job_createdAt = None,
       job_pageUrl = None, job_pageTitle = None,
       job_error = Some (error_message error), job_completedAt = Some (jobTime clk) \<rparr>"

definition handlerTry ::
  "exa_api \<Rightarrow> confluence_api \<Rightarrow> handler_clock \<Rightarrow> DeepResearchEventPayload \<Rightarrow> kvs
     \<Rightarrow> thrown + kvs" where
  "handlerTry api cf clk payload s =
     (case researchAndPublish api cf clk payload of
        Inl e \<Rightarrow> Inl e
      | Inr pageResult \<Rightarrow>
          (case kvs_set s (resultKey (ev_researchId payload))
                  (VResult (completedResult_record clk payload pageResult)) of
             Inl e \<Rightarrow> Inl e
           | Inr s1 \<Rightarrow>
               kvs_set s1 (jobKey (ev_researchId payload))
                 (VJob (completedJob clk payload pageResult))))"

text \<open>The handler: the \<open>try\<close>, and in its \<open>catch\<close> the two writes of the failure.
  \<open>Inl\<close> is an exception that leaves the handler, back to the queue. A write that
  rejects stores nothing and the fault stays, so the \<open>catch\<close> starts from the store
  the handler was called with.\<close>

definition handler ::
  "exa_api \<Rightarrow> confluence_api \<Rightarrow> handler_clock \<Rightarrow> DeepResearchEventPayload \<Rightarrow> kvs
     \<Rightarrow> thrown + kvs" where
  "handler api cf clk payload s =
     (case handlerTry api cf clk payload s of
        Inr s' \<Rightarrow> Inr s'
      | Inl error \<Rightarrow>
          (case kvs_set s (resultKey (ev_researchId payload))
                  (VResult (failedResult_record clk payload error)) of
             Inl e \<Rightarrow> Inl e
           | Inr s1 \<Rightarrow>
               kvs_set s1 (jobKey (ev_researchId payload))
                 (VJob (failedJob clk payload error))))"

text \<open>The status stored for a research id, if a job record is stored for it.\<close>

definition storedStatus :: "kvs \<Rightarrow> jsstring \<Rightarrow> job_status option" where
  "storedStatus s researchId =
     (case entries s (jobKey researchId) of Some (VJob j) \<Rightarrow> Some (job_status j) | _ \<Rightarrow> None)"

section \<open>The deep-research actions (backend/actions/deepResearch.ts)\<close>

text \<open>The payload as the agent sends it: fields may be missing, and the entity type is
  the raw string until it is validated.\<close>

record DeepResearchPayload =
  p_query :: "jsstring option"
  p_entityType :: "jsstring option"
  p_cloudId :: "jsstring option"

definition entityTypeOf :: "jsstring \<Rightarrow> entity_type option" where
  "entityTypeOf t =
     (if t = js ''person'' then Some Person
      else if t = js ''company'' then Some Company else None)"

definition invalidQuery :: "jsstring option \<Rightarrow> bool" where
  "invalidQuery query = (\<not> truthy query \<or> length (trim (the query)) = 0)"

definition invalidEntityType :: "jsstring option \<Rightarrow> bool" where
  "invalidEntityType entityType =
     (\<not> truthy entityType \<or> entityTypeOf (the entityType) = None)"

definition askForQuery :: jsstring where
  "askForQuery = js ''Please provide the name of the person or company you want to research.''"

definition askForEntityType :: jsstring where
  "askForEntityType =
     js ''Please specify whether you want to research a '' @ dquote @ js ''person'' @ dquote
       @ js '' or a '' @ dquote @ js ''company'' @ dquote @ js ''.''"

definition noInformationMessage :: "entity_type \<Rightarrow> jsstring" where
  "noInformationMessage entityType =
     js ''I couldn'' @ [39] @ js ''t find detailed information about ''
       @ (if entityType = Person then js ''this person'' else js ''this company'')
       @ js ''. Here are some suggestions:'' @ nl @ nl
       @ bullet @ js '' Try using the full name'' @ nl
       @ bullet @ js '' Include additional context (company name for people, industry for companies)'' @ nl
       @ bullet @ js '' Check for spelling variations''"

definition followUp :: "entity_type \<Rightarrow> jsstring" where
  "followUp entityType =
     (if entityType = Person
      then nl @ nl @ emoji_bulb @ js '' **Next steps:**'' @ nl
         @ bullet @ js '' Say '' @ dquote @ js ''add this person to board'' @ dquote
             @ js '' to track them in Jira'' @ nl
         @ bullet @ js '' Ask me to search for similar people'' @ nl
         @ bullet @ js '' Ask about their company for more context''
      else nl @ nl @ emoji_bulb @ js '' **Next steps:**'' @ nl
         @ bullet @ js '' Say '' @ dquote @ js ''add this company to board'' @ dquote
             @ js '' to track them in Jira'' @ nl
         @ bullet @ js '' Ask me to find people at this company'' @ nl
         @ bullet @ js '' Search for similar companies in the same space'')"

text \<open>The synchronous action: research, then the test of the report for the sentinel's
  words.\<close>

definition deepResearch_sync :: "exa_api \<Rightarrow> DeepResearchPayload \<Rightarrow> jsstring" where
  "deepResearch_sync api payload =
     (if invalidQuery (p_query payload) then askForQuery
      else if invalidEntityType (p_entityType payload) then askForEntityType
      else
        (let query = the (p_query payload);
             entityType = the (entityTypeOf (the (p_entityType payload)))
         in case exaDeepResearch api query entityType of
              Inl error \<Rightarrow>
                js ''Sorry, I encountered an error while researching: '' @ error_message error
                  @ nl @ nl @ js ''Please try again with a different query.''
            | Inr researchOutput \<Rightarrow>
                if researchOutput = []
                   \<or> includes_js researchOutput (js ''No detailed information found'')
                then noInformationMessage entityType
                else (if entityType = Person then emoji_person else emoji_company)
                       @ js '' **Deep Research: '' @ query @ js ''**'' @ nl @ nl
                       @ researchOutput @ followUp entityType))"

text \<open>The asynchronous action. Its surroundings: \<open>Date.now()\<close>, the nine characters
  taken from \<open>Math.random().toString(36)\<close>, the time stamp of the job record, and what
  the queue answers to a push (the job id, or a rejection, which enqueues nothing). The
  state is the store and the messages on the queue. The action is given no Exa client:
  it cannot perform or await the research.\<close>

record dispatch_env =
  dateNow :: nat
  random36 :: jsstring
  createdTime :: jsstring
  pushAnswer :: "DeepResearchEventPayload \<Rightarrow> thrown + jsstring"

definition newResearchId :: "nat \<Rightarrow> jsstring \<Rightarrow> jsstring" where
  "newResearchId now rnd = js ''research-'' @ show_nat now @ js ''-'' @ rnd"

definition queueingError :: "thrown \<Rightarrow> jsstring" where
  "queueingError error =
     js ''Sorry, I encountered an error while queueing the research: '' @ error_message error
       @ nl @ nl @ js ''Please try again with a different query.''"

definition queuedMessage :: "entity_type \<Rightarrow> jsstring \<Rightarrow> jsstring option \<Rightarrow> jsstring \<Rightarrow> jsstring" where
  "queuedMessage entityType query defaultSpaceKey researchId =
     (if entityType = Person then emoji_person else emoji_company)
       @ js '' **Deep Research Queued**'' @ nl @ nl
       @ js ''I'' @ [39] @ js ''ve started researching **'' @ query
       @ js ''**. This may take 30-60 seconds.'' @ nl @ nl
       @ js ''The research results will be saved to a Confluence page''
       @ (if truthy defaultSpaceKey then js '' in the '' @ the defaultSpaceKey @ js '' space'' else [])
       @ js '' and you'' @ [39] @ js ''ll be notified when it'' @ [39] @ js ''s complete.'' @ nl @ nl
       @ emoji_bulb @ js '' **What happens next:**'' @ nl
       @ bullet @ js '' Research is being performed in the background'' @ nl
       @ bullet @ js '' A Confluence page will be created with comprehensive findings'' @ nl
       @ bullet @ js '' You'' @ [39] @ js ''ll receive a notification when it'' @ [39] @ js ''s ready'' @ nl @ nl
       @ js ''You can continue using Tofu while the research completes. The research ID is: `''
       @ researchId @ js ''` (you can use this to check status).''"

definition deepResearch_async ::
  "dispatch_env \<Rightarrow> DeepResearchPayload \<Rightarrow> kvs \<times> DeepResearchEventPayload list
     \<Rightarrow> jsstring \<times> kvs \<times> DeepResearchEventPayload list" where
  "deepResearch_async env payload st =
     (let s = fst st; queue = snd st in
      if invalidQuery (p_query payload) then (askForQuery, s, queue)
      else if invalidEntityType (p_entityType payload) then (askForEntityType, s, queue)
      else
        (let query = the (p_query payload);
             entityType = the (entityTypeOf (the (p_entityType payload)));
             cloudId = or_else (p_cloudId payload) (js ''unknown'');
             userId = cloudId
         in case kvs_get s (js ''tofu-config'') of
              Inl error \<Rightarrow> (queueingError error, s, queue)
            | Inr config \<Rightarrow>
                (let defaultSpaceKey = (case config of
                                          Some (VConfig c) \<Rightarrow> defaultConfluenceSpace c
                                        | _ \<Rightarrow> None);
                     researchId = newResearchId (dateNow env) (random36 env);
                     body = \<lparr> ev_query = query, ev_entityType = entityType,
                              ev_userId = userId, ev_cloudId = cloudId,
                              ev_spaceKey = defaultSpaceKey, ev_researchId = researchId \<rparr>
                 in case pushAnswer env body of
                      Inl error \<Rightarrow> (queueingError error, s, queue)
                    | Inr jobId \<Rightarrow>
                        (case kvs_set s (jobKey researchId)
                                (VJob \<lparr> job_query = query, job_entityType = entityType,
                                        job_userId = userId, job_cloudId = cloudId,
                                        job_jobId = Some jobId, job_status = StatusQueued,
                                        job_createdAt = Some (createdTime env),
                                        job_pageUrl = None, job_pageTitle = None,
                                        job_error = None, job_completedAt = None \<rparr>) of
                           Inl error \<Rightarrow> (queueingError error, s, queue @ [body])
                         | Inr s' \<Rightarrow>
                             (queuedMessage entityType query defaultSpaceKey researchId,
                              s', queue @ [body])))))"

section \<open>The issue action (resolver \<open>performDeepResearch\<close>)\<close>

record jira_issue =
  is_summary :: "jsstring option"
  is_labels :: "jsstring list option"

record research_comment =
  cm_issueKey :: jsstring
  cm_heading :: jsstring
  cm_leadName :: jsstring
  cm_pageTitle :: jsstring
  cm_pageUrl :: jsstring

text \<open>What Jira and Confluence answer to the user's requests. A comment that is posted
  is an effect; the resolver ignores the answer to it.\<close>

record user_api =
  getIssue :: "jsstring \<Rightarrow> jira_issue http"
  userSpaces :: "ConfluenceSpace list option http"
  userFindSpace :: "jsstring \<Rightarrow> jsstring option list option http"
  userPostPage :: "page_payload \<Rightarrow> ConfluencePageResponse http"
  userBaseUrl :: "jsstring option http"

record DeepResearchResult =
  success :: bool
  message :: jsstring
  res_pageUrl :: "jsstring option"
  res_pageTitle :: "jsstring option"

definition failure :: "jsstring \<Rightarrow> DeepResearchResult" where
  "failure msg = \<lparr> success = False, message = msg, res_pageUrl = None, res_pageTitle = None \<rparr>"

definition getIssueDetails :: "user_api \<Rightarrow> jsstring \<Rightarrow> jira_issue option" where
  "getIssueDetails ua issueKey =
     (case getIssue ua issueKey of
        Rejected e \<Rightarrow> None | NotOk st txt \<Rightarrow> None | Ok issue \<Rightarrow> Some issue)"

text \<open>The flag \<open>i\<close> and \<open>toLowerCase()\<close> are needed here only against ASCII letters:
  without the flag \<open>u\<close> no code unit from 128 on is folded onto an ASCII one, and no
  character other than an ASCII capital is lowered to a letter of \<open>person\<close> or
  \<open>company\<close>.\<close>

definition upperAscii :: "nat \<Rightarrow> nat" where
  "upperAscii c = (if 97 \<le> c \<and> c \<le> 122 then c - 32 else c)"

definition lowerAscii :: "nat \<Rightarrow> nat" where
  "lowerAscii c = (if 65 \<le> c \<and> c \<le> 90 then c + 32 else c)"

definition dropPrefixIgnoreCase :: "jsstring \<Rightarrow> jsstring \<Rightarrow> jsstring" where
  "dropPrefixIgnoreCase pre s =
     (if map upperAscii (take (length pre) s) = map upperAscii pre
      then dropWhile isWhiteSpace (drop (length pre) s) else s)"

definition extractLeadName :: "jsstring \<Rightarrow> jsstring" where
  "extractLeadName summary =
     (let name = trim (dropPrefixIgnoreCase (js ''[Person Lead]'')
                        (dropPrefixIgnoreCase (js ''[Company Lead]'')
                           (dropPrefixIgnoreCase (js ''[Lead]'') summary)))
      in if name = [] then summary else name)"

definition determineEntityType :: "jsstring list \<Rightarrow> entity_type option" where
  "determineEntityType labels =
     (if js ''person'' \<in> set labels then Some Person
      else if js ''company'' \<in> set labels then Some Company
      else if list_ex (\<lambda>l. includes_js (map lowerAscii l) (js ''person'')) labels then Some Person
      else if list_ex (\<lambda>l. includes_js (map lowerAscii l) (js ''company'')) labels then Some Company
      else None)"

definition getSpaces :: "user_api \<Rightarrow> ConfluenceSpace list" where
  "getSpaces ua =
     (case userSpaces ua of
        Rejected e \<Rightarrow> []
      | NotOk st txt \<Rightarrow> []
      | Ok data \<Rightarrow> (case data of None \<Rightarrow> [] | Some rs \<Rightarrow> rs))"

definition getDefaultSpaceKey :: "user_api \<Rightarrow> jsstring option" where
  "getDefaultSpaceKey ua = (case getSpaces ua of [] \<Rightarrow> None | sp # rest \<Rightarrow> Some (sp_key sp))"

definition getSpaceKey :: "user_api \<Rightarrow> kvs \<Rightarrow> jsstring option" where
  "getSpaceKey ua s =
     (case kvs_get s (js ''tofu-config'') of
        Inr (Some (VConfig config)) \<Rightarrow>
          if truthy (confluenceSpaceKey config) then confluenceSpaceKey config
          else getDefaultSpaceKey ua
      | _ \<Rightarrow> getDefaultSpaceKey ua)"

definition getConfluenceBaseUrl :: "user_api \<Rightarrow> jsstring" where
  "getConfluenceBaseUrl ua =
     (case userBaseUrl ua of
        Ok base \<Rightarrow> (if truthy base then the base else [])
      | _ \<Rightarrow> [])"

definition createPage :: "user_api \<Rightarrow> CreatePageOptions \<Rightarrow> page_result option" where
  "createPage ua options =
     (case userFindSpace ua (o_spaceKey options) of
        Rejected e \<Rightarrow> None
      | NotOk st txt \<Rightarrow> None
      | Ok spaceData \<Rightarrow>
          (case spaceData of
             None \<Rightarrow> None
           | Some [] \<Rightarrow> None
           | Some (first # rest) \<Rightarrow>
               if \<not> truthy first then None
               else
                 (case userPostPage ua
                         \<lparr> pp_spaceId = the first, pp_status = js ''current'',
                           pp_title = o_title options,
                           pp_representation = (case o_format options of
                                                  None \<Rightarrow> js ''storage'' | Some f \<Rightarrow> f),
                           pp_value = o_body options,
                           pp_parentId = (if truthy (o_parentId options)
                                          then o_parentId options else None) \<rparr> of
                    Rejected e \<Rightarrow> None
                  | NotOk st txt \<Rightarrow> None
                  | Ok page \<Rightarrow>
                      (let baseUrl = getConfluenceBaseUrl ua
                       in Some \<lparr> pageId = pg_id page,
                                 pageUrl = (if baseUrl \<noteq> []
                                            then baseUrl @ js ''/wiki'' @ pg_webui page
                                            else pg_webui page),
                                 title = pg_title page \<rparr>))))"

definition performDeepResearch ::
  "exa_api \<Rightarrow> user_api \<Rightarrow> jsstring \<Rightarrow> kvs \<Rightarrow> jsstring option
     \<Rightarrow> DeepResearchResult \<times> research_comment list" where
  "performDeepResearch api ua today s issueKey =
     (if \<not> truthy issueKey
      then (failure (js ''Could not determine which issue to research. Please try again.''), [])
      else
       (case getIssueDetails ua (the issueKey) of
          None \<Rightarrow>
            (failure (js ''Could not fetch issue details for '' @ the issueKey
                        @ js ''. Please check your permissions.''), [])
        | Some issue \<Rightarrow>
            (let labels = (case is_labels issue of None \<Rightarrow> [] | Some ls \<Rightarrow> ls);
                 summary = or_else (is_summary issue) []
             in if js ''tofu-lead'' \<notin> set labels
                then (failure (js ''This issue is not a Tofu lead. Deep research is only available for issues with the ''
                         @ dquote @ js ''tofu-lead'' @ dquote @ js '' label.''), [])
                else
                 (case determineEntityType labels of
                    None \<Rightarrow>
                      (failure (js ''Could not determine if this is a person or company lead. Please ensure the issue has a ''
                          @ dquote @ js ''person'' @ dquote @ js '' or '' @ dquote @ js ''company''
                          @ dquote @ js '' label.''), [])
                  | Some entityType \<Rightarrow>
                      (let leadName = extractLeadName summary
                       in case exaDeepResearch api leadName entityType of
                            Inl error \<Rightarrow>
                              (failure (js ''Research failed: '' @ error_message error
                                          @ js ''. Please try again.''), [])
                          | Inr researchOutput \<Rightarrow>
                              if researchOutput = []
                                 \<or> includes_js researchOutput (js ''No detailed information found'')
                              then (failure (js ''Could not find detailed information about ''
                                      @ dquote @ leadName @ dquote
                                      @ js ''. The research may require more specific details.''), [])
                              else
                               (case getSpaceKey ua s of
                                  None \<Rightarrow>
                                    (failure (js ''No Confluence space available. Please ensure you have access to at least one Confluence space.''), [])
                                | Some spaceKey \<Rightarrow>
                                    if spaceKey = []
                                    then (failure (js ''No Confluence space available. Please ensure you have access to at least one Confluence space.''), [])
                                    else
                                     (let pageTitle = js ''Research: '' @ leadName @ js '' (''
                                            @ (if entityType = Person then js ''Person'' else js ''Company'')
                                            @ js '')'';
                                          pageBody = convertResearchToStorageFormat
                                                       (MdString researchOutput) leadName entityType today
                                      in case createPage ua
                                                \<lparr> o_spaceKey = spaceKey, o_title = pageTitle,
                                                  o_body = pageBody, o_parentId = None,
                                                  o_format = Some (js ''storage'') \<rparr> of
                                           None \<Rightarrow>
                                             (failure (js ''Failed to create Confluence page in space ''
                                                @ dquote @ spaceKey @ dquote
                                                @ js ''. Please check your permissions.''), [])
                                         | Some pageResult \<Rightarrow>
                                             (\<lparr> success = True,
                                                message = (if entityType = Person then emoji_person
                                                           else emoji_company)
                                                  @ js '' Deep research complete! A Confluence page has been created with comprehensive information about ''
                                                  @ leadName @ js ''.'',
                                                res_pageUrl = Some (pageUrl pageResult),
                                                res_pageTitle = Some pageTitle \<rparr>,
                                              [\<lparr> cm_issueKey = the issueKey,
                                                 cm_heading = (if entityType = Person then emoji_person
                                                               else emoji_company)
                                                   @ js '' Deep Research Complete'',
                                                 cm_leadName = leadName,
                                                 cm_pageTitle = pageTitle,
                                                 cm_pageUrl = pageUrl pageResult \<rparr>]))))))))"

section \<open>Search history and leads (actions/searchPeople.ts, actions/searchCompanies.ts)\<close>








text \<open>Reading the three collections back, as the dashboard does
  (\<open>kvs.get(key) || []\<close>).\<close>

definition pendingLeads :: "kvs \<Rightarrow> PersonLead list" where
  "pendingLeads s = (case entries s (js ''pending-leads'') of Some (VPersonLeads ls) \<Rightarrow> ls | _ \<Rightarrow> [])"

definition pendingCompanyLeads :: "kvs \<Rightarrow> CompanyLead list" where
  "pendingCompanyLeads s =
     (case entries s (js ''pending-company-leads'') of Some (VCompanyLeads ls) \<Rightarrow> ls | _ \<Rightarrow> [])"

definition searchHistory :: "kvs \<Rightarrow> SearchHistoryItem list" where
  "searchHistory s = (case entries s (js ''search-history'') of Some (VHistory h) \<Rightarrow> h | _ \<Rightarrow> [])"





text \<open>Concrete stores and leads for the examples: the empty store, a person and a company
  lead with a given id and URL, and \<open>n\<close> leads with \<open>n\<close> different URLs (\<open>v\<close>,
  \<open>vx\<close>, \<open>vxx\<close>, ...).\<close>

definition empty_kvs :: kvs where
  "empty_kvs = \<lparr> entries = (\<lambda>k. None), fault = None \<rparr>"

definition personLead :: "jsstring \<Rightarrow> jsstring \<Rightarrow> PersonLead" where
  "personLead i u = \<lparr> pl_id = i, pl_name = js ''Ada'', pl_profileUrl = Some u, pl_summary = None,
      pl_foundAt = js ''2025-01-01T00:00:00.000Z'', pl_source = u, pl_status = LeadPending \<rparr>"

definition companyLead :: "jsstring \<Rightarrow> jsstring \<Rightarrow> CompanyLead" where
  "companyLead i u = \<lparr> cl_id = i, cl_name = js ''Acme'', cl_website = Some u, cl_summary = None,
      cl_foundAt = js ''2025-01-01T00:00:00.000Z'', cl_source = u, cl_status = LeadPending \<rparr>"

definition fillerLeads :: "nat \<Rightarrow> PersonLead list" where
  "fillerLeads n = map (\<lambda>i. personLead (replicate i 120) (118 # replicate i 120)) [0..<n]"

definition fillerCompanies :: "nat \<Rightarrow> CompanyLead list" where
  "fillerCompanies n = map (\<lambda>i. companyLead (replicate i 120) (118 # replicate i 120)) [0..<n]"


text \<open>The stored status behind a run of the handler (\<open>None\<close> when the handler threw or
  no job record is stored).\<close>

definition statusAfter :: "thrown + kvs \<Rightarrow> jsstring \<Rightarrow> job_status option" where
  "statusAfter r researchId = (case r of Inl e \<Rightarrow> None | Inr s' \<Rightarrow> storedStatus s' researchId)"

text \<open>A Confluence with one space in which pages can be created, a clock, an event for
  the research \<open>r1\<close>, and a store in which the job of \<open>r1\<close> has failed.\<close>

definition cf_one_space :: confluence_api where
  "cf_one_space =
     \<lparr> listSpaces = (\<lambda>n. Ok (Some [\<lparr> sp_id = js ''1'', sp_key = js ''DOCS'', sp_name = js ''Docs'' \<rparr>])),
       findSpace = (\<lambda>key. Ok (Some [Some (js ''1'')])),
       postPage = (\<lambda>payload. Ok \<lparr> pg_id = js ''77'', pg_title = pp_title payload,
                                     pg_webui = js ''/spaces/DOCS/pages/77'' \<rparr>) \<rparr>"

definition clock0 :: handler_clock where
  "clock0 = \<lparr> bannerDate = js ''1/2/2025'', resultTime = js ''2025-01-02T00:00:00.000Z'',
              jobTime = js ''2025-01-02T00:00:00.001Z'' \<rparr>"

definition event_r1 :: DeepResearchEventPayload where
  "event_r1 = \<lparr> ev_query = js ''Ada'', ev_entityType = Person, ev_userId = js ''c1'',
                 ev_cloudId = js ''c1'', ev_spaceKey = None, ev_researchId = js ''r1'' \<rparr>"

definition store_failed_r1 :: kvs where
  "store_failed_r1 =
     \<lparr> entries = (\<lambda>k. if k = jobKey (js ''r1'')
                        then Some (VJob (failedJob clock0 event_r1 (Error (js ''Research failed''))))
                        else None),
       fault = None \<rparr>"

definition cf_no_space :: confluence_api where
  "cf_no_space =
     \<lparr> listSpaces = (\<lambda>n. Ok (Some [])),
       findSpace = (\<lambda>key. Ok (Some [])),
       postPage = (\<lambda>payload. NotOk 404 (js ''no space'')) \<rparr>"

text \<open>The report of \<open>api_three_polls\<close>.\<close>

definition report_three_polls :: jsstring where
  "report_three_polls =
     js ''Report.'' @ nl @ nl @ js ''**Sources:**'' @ nl
       @ js ''1. [A](http://a)'' @ nl @ js ''2. [B](http://b)'' @ nl"

text \<open>The number a string of decimal digits denotes, to read \<open>show_nat\<close> back.\<close>

definition digitsValue :: "jsstring \<Rightarrow> nat" where
  "digitsValue ds = foldl (\<lambda>acc c. 10 * acc + (c - 48)) 0 ds"

text \<open>An invocation of the asynchronous action, a report of a completed task that happens
  to contain the words of the sentinel, the Exa that answers with it at the first poll,
  and a Jira with one lead issue.\<close>

definition env0 :: dispatch_env where
  "env0 = \<lparr> dateNow = 1700000000000, random36 = js ''k3j9x0a1b'',
            createdTime = js ''2023-11-14T22:13:20.000Z'',
            pushAnswer = (\<lambda>body. Inr (js ''job-1'')) \<rparr>"

definition payload_acme :: DeepResearchPayload where
  "payload_acme = \<lparr> p_query = Some (js ''Acme''), p_entityType = Some (js ''company''),
                     p_cloudId = Some (js ''c1'') \<rparr>"

definition report_phrase :: jsstring where
  "report_phrase = js ''Acme is active. No detailed information found in court records.''"

definition api_phrase :: exa_api where
  "api_phrase =
     \<lparr> exaApiKey = Some (js ''key''),
       postResearch = (\<lambda>ins model. Ok \<lparr> cr_researchId = js ''r1'', cr_status = Pending \<rparr>),
       getResearch = (\<lambda>rid n. Ok \<lparr> gr_status = Completed, gr_output = Some report_phrase,
                                     gr_sources = None, gr_error = None \<rparr>),
       postSearch = (\<lambda>rq. Ok \<lparr> results = Some [] \<rparr>) \<rparr>"

definition ua_acme :: user_api where
  "ua_acme =
     \<lparr> getIssue = (\<lambda>key. Ok \<lparr> is_summary = Some (js ''[Lead] Acme''),
                               is_labels = Some [js ''tofu-lead'', js ''company''] \<rparr>),
       userSpaces = Ok (Some []),
       userFindSpace = (\<lambda>key. Ok (Some [])),
       userPostPage = (\<lambda>payload. NotOk 404 (js ''no space'')),
       userBaseUrl = Ok None \<rparr>"

text \<open>A report of one paragraph without markdown: no \<open>*\<close>, no \<open>[\<close>, no line
  terminator; no heading or list marker, digit or white space in front, no white space
  at the end; and not starting like one of the block tags the paragraph rule lets through.\<close>

definition plainText :: "jsstring \<Rightarrow> bool" where
  "plainText t =
     (t \<noteq> []
      \<and> (\<forall>c\<in>set t. c \<noteq> 42 \<and> c \<noteq> 91 \<and> \<not> isLineTerminator c)
      \<and> hd t \<noteq> 35 \<and> hd t \<noteq> 45 \<and> hd t \<noteq> 8226 \<and> \<not> isDigit (hd t)
      \<and> \<not> isWhiteSpace (hd t) \<and> \<not> isWhiteSpace (last t)
      \<and> \<not> startsWith t (js ''<h'') \<and> \<not> startsWith t (js ''<ul'')
      \<and> \<not> startsWith t (js ''<ol'') \<and> \<not> startsWith t (js ''<hr'')
      \<and> \<not> startsWith t (js ''<p''))"

text \<open>Escaping as the specification words it: each markup-significant character becomes
  its entity.\<close>

definition escapeChar :: "nat \<Rightarrow> jsstring" where
  "escapeChar c =
     (if c = 38 then js ''&amp;'' else if c = 60 then js ''&lt;'' else if c = 62 then js ''&gt;''
      else if c = 34 then js ''&quot;'' else if c = 39 then js ''&#039;'' else [c])"

definition report_markup :: jsstring where
  "report_markup = js ''AT&T <b>wins</b>''"

text \<open>The query of the job record stored for a research id.\<close>

definition storedQuery :: "kvs \<Rightarrow> jsstring \<Rightarrow> jsstring option" where
  "storedQuery s researchId =
     (case entries s (jobKey researchId) of Some (VJob j) \<Rightarrow> Some (job_query j) | _ \<Rightarrow> None)"

text \<open>A store that is down, a queue that rejects the push, a second payload, and two
  dispatches made at the same clock reading with the same random draw.\<close>

definition store_down :: kvs where
  "store_down = \<lparr> entries = (\<lambda>k. None), fault = Some (Error (js ''KVS down'')) \<rparr>"

definition env_push_rejected :: dispatch_env where
  "env_push_rejected = env0 \<lparr> pushAnswer := (\<lambda>body. Inl (Error (js ''queue down''))) \<rparr>"

definition payload_ada :: DeepResearchPayload where
  "payload_ada = \<lparr> p_query = Some (js ''Ada''), p_entityType = Some (js ''person''),
                    p_cloudId = Some (js ''c1'') \<rparr>"

definition dispatched_twice :: "jsstring \<times> kvs \<times> DeepResearchEventPayload list" where
  "dispatched_twice =
     deepResearch_async env0 payload_ada
       (snd (deepResearch_async env0 payload_acme (empty_kvs, [])))"

text \<open>One step of the backoff, \<open>Math.min(delay * 1.5, maxDelay)\<close>, named for the proofs.\<close>

definition backoffStep :: "rat \<Rightarrow> rat" where
  "backoffStep d = min (d * backoffFactor) maxDelay"

text \<open>The numbered list of sources as the specification words it: line \<open>n\<close> (from 1)
  is the \<open>n\<close>-th source of the response, rendered as a link.\<close>

definition numberedLinks :: "research_source list \<Rightarrow> jsstring" where
  "numberedLinks srcs =
     concat (map (\<lambda>i. show_nat (i + 1) @ js ''. ['' @ src_title (srcs ! i) @ js ''](''
                        @ src_url (srcs ! i) @ js '')'' @ nl) [0..<length srcs])"

text \<open>Two concrete worlds. In \<open>api_stalled\<close> the task is created and every poll
  answers \<open>running\<close>; the fallback search finds nothing. In \<open>api_three_polls\<close> the
  polls answer running, running, completed with two sources.\<close>

definition api_stalled :: exa_api where
  "api_stalled =
     \<lparr> exaApiKey = Some (js ''key''),
       postResearch = (\<lambda>ins model. Ok \<lparr> cr_researchId = js ''r1'', cr_status = Pending \<rparr>),
       getResearch = (\<lambda>rid n. Ok \<lparr> gr_status = Running, gr_output = None,
                                     gr_sources = None, gr_error = None \<rparr>),
       postSearch = (\<lambda>rq. Ok \<lparr> results = Some [] \<rparr>) \<rparr>"

definition api_three_polls :: exa_api where
  "api_three_polls =
     \<lparr> exaApiKey = Some (js ''key''),
       postResearch = (\<lambda>ins model. Ok \<lparr> cr_researchId = js ''r1'', cr_status = Pending \<rparr>),
       getResearch = (\<lambda>rid n.
          if n = 3
          then Ok \<lparr> gr_status = Completed, gr_output = Some (js ''Report.''),
                    gr_sources = Some [\<lparr> src_url = js ''http://a'', src_title = js ''A'' \<rparr>,
                                       \<lparr> src_url = js ''http://b'', src_title = js ''B'' \<rparr>],
                    gr_error = None \<rparr>
          else Ok \<lparr> gr_status = Running, gr_output = None,
                    gr_sources = None, gr_error = None \<rparr>),
       postSearch = (\<lambda>rq. Ok \<lparr> results = Some [] \<rparr>) \<rparr>"

section \<open>Properties of the Exa client\<close>

lemma js_eq_Nil [simp]: "js s = [] \<longleftrightarrow> s = []"
  by (simp add: js_def)

lemma foldl_appendSource:
  "foldl appendSource acc (enumerate n srcs) =
     acc @ concat (map (\<lambda>i. show_nat (n + i + 1) @ js ''. ['' @ src_title (srcs ! i) @ js ''](''
                        @ src_url (srcs ! i) @ js '')'' @ nl) [0..<length srcs])"
proof (induction srcs arbitrary: acc n)
  case Nil
  then show ?case by simp
next
  case (Cons s srcs)
  show ?case
    apply (simp only: enumerate_simps foldl.simps Cons.IH)
    apply (simp add: appendSource_def map_upt_Suc del: upt_Suc)
    done
qed

lemma completedResult_eq:
  "completedResult r =
     or_else (gr_output r) (js ''No research output available.'')
       @ (case gr_sources r of None \<Rightarrow> [] | Some srcs \<Rightarrow>
            if srcs = [] then [] else nl @ nl @ js ''**Sources:**'' @ nl @ numberedLinks srcs)"
  by (simp add: completedResult_def numberedLinks_def foldl_appendSource Let_def split: option.splits)

lemma pollLoop_running:
  "truthy (exaApiKey api) \<Longrightarrow> attempt \<le> maxAttempts \<Longrightarrow> getResearch api rid attempt = Ok r \<Longrightarrow>
   gr_status r = Running \<or> gr_status r = Pending \<Longrightarrow>
   pollLoop api rid attempt delay =
     (let p = pollLoop api rid (attempt + 1) (min (delay * backoffFactor) maxDelay)
      in (fst p, delay # snd p))"
  by (subst pollLoop.simps) (auto simp: makeExaGetRequest_def getApiKey_def)

lemma pollLoop_completed:
  "truthy (exaApiKey api) \<Longrightarrow> attempt \<le> maxAttempts \<Longrightarrow> getResearch api rid attempt = Ok r \<Longrightarrow>
   gr_status r = Completed \<Longrightarrow>
   pollLoop api rid attempt delay = (Inr (completedResult r), [delay])"
  by (subst pollLoop.simps) (auto simp: makeExaGetRequest_def getApiKey_def)

lemma pollLoop_length:
  "length (snd (pollLoop api rid attempt delay)) \<le> Suc maxAttempts - attempt"
proof (induction api rid attempt delay rule: pollLoop.induct)
  case (1 api rid attempt delay)
  show ?case
    apply (subst pollLoop.simps)
    using 1 apply (auto split: sum.splits simp: Let_def)
    done
qed

lemma pollLoop_nth:
  "i < length (snd (pollLoop api rid attempt delay)) \<Longrightarrow>
   snd (pollLoop api rid attempt delay) ! i = (backoffStep ^^ i) delay"
proof (induction api rid attempt delay arbitrary: i rule: pollLoop.induct)
  case (1 api rid attempt delay)
  show ?case
  proof (cases i)
    case 0
    with "1.prems" show ?thesis
      by (subst (asm) pollLoop.simps, subst pollLoop.simps)
         (auto split: sum.splits if_splits simp: Let_def)
  next
    case (Suc j)
    with "1.prems" "1.IH" show ?thesis
      apply (subst (asm) pollLoop.simps, subst pollLoop.simps)
      apply (auto split: sum.splits if_splits simp: Let_def backoffStep_def [symmetric] funpow_swap1)
      done
  qed
qed

lemma backoff_closed:
  "0 \<le> d \<Longrightarrow> d \<le> maxDelay \<Longrightarrow> (backoffStep ^^ i) d = min (d * backoffFactor ^ i) maxDelay"
proof (induction i)
  case 0
  then show ?case by simp
next
  case (Suc i)
  let ?x = "d * backoffFactor ^ i"
  have x0: "0 \<le> ?x" using Suc.prems by (simp add: backoffFactor_def)
  have ih: "(backoffStep ^^ i) d = min ?x maxDelay"
    using Suc by simp
  have "(backoffStep ^^ Suc i) d = backoffStep ((backoffStep ^^ i) d)"
    by simp
  also have "\<dots> = backoffStep (min ?x maxDelay)"
    by (simp only: ih)
  finally have step: "(backoffStep ^^ Suc i) d = min (min ?x maxDelay * backoffFactor) maxDelay"
    by (simp only: backoffStep_def)
  show ?case
  proof (cases "?x \<le> maxDelay")
    case True
    then show ?thesis using step by (simp add: min_def mult_ac)
  next
    case False
    then have "maxDelay < ?x * backoffFactor"
      using x0 by (simp add: backoffFactor_def)
    moreover have "maxDelay \<le> maxDelay * backoffFactor"
      by (simp add: backoffFactor_def maxDelay_def)
    ultimately show ?thesis using step False by (simp add: min_def mult_ac)
  qed
qed

lemma pollLoop_timeout:
  "truthy (exaApiKey api) \<Longrightarrow>
   \<forall>n. attempt \<le> n \<and> n \<le> maxAttempts \<longrightarrow>
      (\<exists>r. getResearch api rid n = Ok r \<and> (gr_status r = Pending \<or> gr_status r = Running)) \<Longrightarrow>
   fst (pollLoop api rid attempt delay) =
      Inl (Error (js ''Research timed out. The request is taking longer than expected.''))
   \<and> length (snd (pollLoop api rid attempt delay)) = Suc maxAttempts - attempt"
proof (induction api rid attempt delay rule: pollLoop.induct)
  case (1 api rid attempt delay)
  show ?case
  proof (cases "attempt \<le> maxAttempts")
    case False
    then show ?thesis by (subst pollLoop.simps, subst pollLoop.simps) simp
  next
    case True
    with "1.prems" obtain r where r: "getResearch api rid attempt = Ok r"
      "gr_status r = Pending \<or> gr_status r = Running" by auto
    have rq: "makeExaGetRequest api (getResearch api rid attempt) = Inr r"
      using "1.prems"(1) r by (simp add: makeExaGetRequest_def getApiKey_def)
    have ih: "fst (pollLoop api rid (attempt + 1) (min (delay * backoffFactor) maxDelay)) =
      Inl (Error (js ''Research timed out. The request is taking longer than expected.''))
      \<and> length (snd (pollLoop api rid (attempt + 1) (min (delay * backoffFactor) maxDelay)))
          = Suc maxAttempts - (attempt + 1)"
      using "1.IH"[OF True rq] r "1.prems" by auto
    show ?thesis
      using True r rq ih
      by (subst pollLoop.simps, subst pollLoop.simps) (auto simp: Let_def)
  qed
qed

lemma researchTask_stalled:
  "researchTask api_stalled query entityType =
     (Inl (Error (js ''Research timed out. The request is taking longer than expected.'')),
      snd (researchTask api_stalled query entityType))
   \<and> length (snd (researchTask api_stalled query entityType)) = 30"
  using pollLoop_timeout [of api_stalled 1 "js ''r1''" initialDelay]
  by (simp add: researchTask_def makeExaRequest_def getApiKey_def truthy_def api_stalled_def
        maxAttempts_def prod_eq_iff)

text \<open>
  Claim C2. When the research path (creating the task or polling it, a timeout included)
  throws, the key is configured and the fallback search answers with no results (an empty
  or a missing list), the client returns the sentinel
  \<open>No detailed information found for <query>.\<close> and does not throw.
\<close>

theorem C2_fallback_sentinel:
  assumes "fst (researchTask api query entityType) = Inl e"
    and "truthy (exaApiKey api)"
    and "postSearch api (fallbackRequest query entityType) = Ok response"
    and "results response = None \<or> results response = Some []"
  shows "exaDeepResearch api query entityType =
           Inr (js ''No detailed information found for '' @ query @ js ''.'')"
  using assms
  by (auto simp: exaDeepResearch_def fallbackDeepSearch_def makeExaRequest_def getApiKey_def)

theorem C2_fallback_sentinel_witness:
  "fst (researchTask api_stalled (js ''Acme'') Company) =
     Inl (Error (js ''Research timed out. The request is taking longer than expected.''))
   \<and> exaDeepResearch api_stalled (js ''Acme'') Company =
       Inr (js ''No detailed information found for Acme.'')"
proof -
  have t: "fst (researchTask api_stalled (js ''Acme'') Company) =
     Inl (Error (js ''Research timed out. The request is taking longer than expected.''))"
    using researchTask_stalled [of "js ''Acme''" Company] by (simp add: prod_eq_iff)
  have k: "truthy (exaApiKey api_stalled)"
    by (simp add: api_stalled_def truthy_def js_def)
  have s: "postSearch api_stalled (fallbackRequest (js ''Acme'') Company) = Ok \<lparr> results = Some [] \<rparr>"
    by (simp add: api_stalled_def)
  have "exaDeepResearch api_stalled (js ''Acme'') Company =
           Inr (js ''No detailed information found for '' @ js ''Acme'' @ js ''.'')"
    using C2_fallback_sentinel [OF t k s] by simp
  then show ?thesis using t by (simp add: js_def)
qed

lemma three_polls_run:
  assumes "truthy (exaApiKey api)"
    and "postResearch api (instructions query entityType) (js ''exa-research-fast'') = Ok created"
    and "getResearch api (cr_researchId created) 1 = Ok r1" and "gr_status r1 = Running"
    and "getResearch api (cr_researchId created) 2 = Ok r2" and "gr_status r2 = Running"
    and "getResearch api (cr_researchId created) 3 = Ok r3" and "gr_status r3 = Completed"
  shows "researchTask api query entityType = (Inr (completedResult r3), [2000, 3000, 4500])"
proof -
  let ?rid = "cr_researchId created"
  have p3: "pollLoop api ?rid 3 4500 = (Inr (completedResult r3), [4500])"
    using assms by (simp add: pollLoop_completed maxAttempts_def)
  have p2: "pollLoop api ?rid 2 3000 = (Inr (completedResult r3), [3000, 4500])"
    using assms p3 pollLoop_running [of api 2 ?rid r2 3000]
    by (simp add: maxAttempts_def backoffFactor_def maxDelay_def numeral_2_eq_2 numeral_3_eq_3)
  have p1: "pollLoop api ?rid 1 2000 = (Inr (completedResult r3), [2000, 3000, 4500])"
    using assms p2 pollLoop_running [of api 1 ?rid r1 2000]
    by (simp add: maxAttempts_def backoffFactor_def maxDelay_def numeral_2_eq_2 numeral_3_eq_3)
  show ?thesis
    using assms p1 by (simp add: researchTask_def makeExaRequest_def getApiKey_def initialDelay_def)
qed

text \<open>
  Claim C5. When the task is created and the get-status endpoint answers running, running,
  completed, the client polls exactly three times (after sleeping 2000, 3000 and 4500 ms)
  and returns the output of the completed response (the placeholder text when the output
  is missing or empty) followed, when there are sources, by the heading and the sources
  numbered 1..N in the order of the response, each as a link.
\<close>

theorem C5_three_polls_numbered_sources:
  assumes "truthy (exaApiKey api)"
    and "postResearch api (instructions query entityType) (js ''exa-research-fast'') = Ok created"
    and "getResearch api (cr_researchId created) 1 = Ok r1" and "gr_status r1 = Running"
    and "getResearch api (cr_researchId created) 2 = Ok r2" and "gr_status r2 = Running"
    and "getResearch api (cr_researchId created) 3 = Ok r3" and "gr_status r3 = Completed"
  shows "snd (researchTask api query entityType) = [2000, 3000, 4500]
     \<and> exaDeepResearch api query entityType =
         Inr (or_else (gr_output r3) (js ''No research output available.'')
              @ (case gr_sources r3 of None \<Rightarrow> [] | Some srcs \<Rightarrow>
                   if srcs = [] then []
                   else nl @ nl @ js ''**Sources:**'' @ nl @ numberedLinks srcs))"
proof -
  have "researchTask api query entityType = (Inr (completedResult r3), [2000, 3000, 4500])"
    using assms by (rule three_polls_run)
  then show ?thesis
    by (simp add: exaDeepResearch_def completedResult_eq)
qed

theorem C5_three_polls_numbered_sources_witness:
  "length (snd (researchTask api_three_polls (js ''Ada'') Person)) = 3
   \<and> exaDeepResearch api_three_polls (js ''Ada'') Person =
       Inr (js ''Report.'' @ nl @ nl @ js ''**Sources:**'' @ nl
            @ js ''1. [A](http://a)'' @ nl @ js ''2. [B](http://b)'' @ nl)"
proof -
  have k: "truthy (exaApiKey api_three_polls)"
    by (simp add: api_three_polls_def truthy_def js_def)
  show ?thesis
    using C5_three_polls_numbered_sources [of api_three_polls "js ''Ada''" Person
        "\<lparr> cr_researchId = js ''r1'', cr_status = Pending \<rparr>"
        "\<lparr> gr_status = Running, gr_output = None, gr_sources = None, gr_error = None \<rparr>"
        "\<lparr> gr_status = Running, gr_output = None, gr_sources = None, gr_error = None \<rparr>"
        "\<lparr> gr_status = Completed, gr_output = Some (js ''Report.''),
           gr_sources = Some [\<lparr> src_url = js ''http://a'', src_title = js ''A'' \<rparr>,
                              \<lparr> src_url = js ''http://b'', src_title = js ''B'' \<rparr>],
           gr_error = None \<rparr>", OF k]
    by (simp add: api_three_polls_def or_else_def numberedLinks_def show_nat.simps js_def nl_def
          upt_rec)
qed

text \<open>
  Claim C6. Whatever the endpoints answer, the loop polls at most 30 times; the delay slept
  before attempt \<open>n\<close> is \<open>min (2000 * 1.5 ^ (n - 1)) 30000\<close> ms; and when the task is
  created and each of the 30 polls answers a status that is not terminal (pending or
  running), the loop has polled 30 times and throws the timeout error.
\<close>

theorem C6_poll_budget_backoff_timeout:
  "length (snd (researchTask api query entityType)) \<le> 30
   \<and> (\<forall>n. 1 \<le> n \<and> n \<le> length (snd (researchTask api query entityType)) \<longrightarrow>
         snd (researchTask api query entityType) ! (n - 1) = min (2000 * (3 / 2) ^ (n - 1)) 30000)
   \<and> (truthy (exaApiKey api)
        \<and> postResearch api (instructions query entityType) (js ''exa-research-fast'') = Ok created
        \<and> (\<forall>n\<in>{1..30}. \<exists>r. getResearch api (cr_researchId created) n = Ok r
                \<and> (gr_status r = Pending \<or> gr_status r = Running))
      \<longrightarrow> fst (researchTask api query entityType) =
            Inl (Error (js ''Research timed out. The request is taking longer than expected.''))
          \<and> length (snd (researchTask api query entityType)) = 30)"
proof (intro conjI allI impI)
  show "length (snd (researchTask api query entityType)) \<le> 30"
    using pollLoop_length [of api _ 1 initialDelay]
    by (auto simp: researchTask_def maxAttempts_def split: sum.splits)
next
  fix n
  assume n: "1 \<le> n \<and> n \<le> length (snd (researchTask api query entityType))"
  then obtain created' where
    c: "makeExaRequest api (postResearch api (instructions query entityType)
          (js ''exa-research-fast'')) = Inr created'"
    by (cases "makeExaRequest api (postResearch api (instructions query entityType)
          (js ''exa-research-fast''))") (auto simp: researchTask_def)
  have t: "researchTask api query entityType = pollLoop api (cr_researchId created') 1 initialDelay"
    by (simp add: researchTask_def c)
  have "snd (researchTask api query entityType) ! (n - 1) = (backoffStep ^^ (n - 1)) initialDelay"
    using n unfolding t by (intro pollLoop_nth) auto
  also have "\<dots> = min (initialDelay * backoffFactor ^ (n - 1)) maxDelay"
    by (rule backoff_closed) (simp_all add: initialDelay_def maxDelay_def)
  finally show "snd (researchTask api query entityType) ! (n - 1)
      = min (2000 * (3 / 2) ^ (n - 1)) 30000"
    by (simp add: initialDelay_def maxDelay_def backoffFactor_def)
next
  assume h: "truthy (exaApiKey api)
        \<and> postResearch api (instructions query entityType) (js ''exa-research-fast'') = Ok created
        \<and> (\<forall>n\<in>{1..30}. \<exists>r. getResearch api (cr_researchId created) n = Ok r
                \<and> (gr_status r = Pending \<or> gr_status r = Running))"
  then have t: "researchTask api query entityType = pollLoop api (cr_researchId created) 1 initialDelay"
    by (simp add: researchTask_def makeExaRequest_def getApiKey_def)
  have p: "fst (pollLoop api (cr_researchId created) 1 initialDelay) =
      Inl (Error (js ''Research timed out. The request is taking longer than expected.''))
     \<and> length (snd (pollLoop api (cr_researchId created) 1 initialDelay)) = Suc maxAttempts - 1"
    using h by (intro pollLoop_timeout) (auto simp: maxAttempts_def)
  show "fst (researchTask api query entityType) =
      Inl (Error (js ''Research timed out. The request is taking longer than expected.''))"
    using p t by simp
  show "length (snd (researchTask api query entityType)) = 30"
    using p t by (simp add: maxAttempts_def)
qed

theorem C6_poll_budget_backoff_timeout_witness:
  "fst (researchTask api_stalled (js ''Acme'') Company) =
     Inl (Error (js ''Research timed out. The request is taking longer than expected.''))
   \<and> length (snd (researchTask api_stalled (js ''Acme'') Company)) = 30
   \<and> snd (researchTask api_stalled (js ''Acme'') Company) ! 3 = 6750
   \<and> snd (researchTask api_stalled (js ''Acme'') Company) ! 29 = 30000"
proof -
  note c6 = C6_poll_budget_backoff_timeout [of api_stalled "js ''Acme''" Company
      "\<lparr> cr_researchId = js ''r1'', cr_status = Pending \<rparr>"]
  have h: "truthy (exaApiKey api_stalled)
        \<and> postResearch api_stalled (instructions (js ''Acme'') Company) (js ''exa-research-fast'')
            = Ok \<lparr> cr_researchId = js ''r1'', cr_status = Pending \<rparr>
        \<and> (\<forall>n\<in>{1..30}. \<exists>r. getResearch api_stalled
               (cr_researchId \<lparr> cr_researchId = js ''r1'', cr_status = Pending \<rparr>) n = Ok r
                \<and> (gr_status r = Pending \<or> gr_status r = Running))"
    by (simp add: api_stalled_def truthy_def js_def)
  from c6 h have a: "fst (researchTask api_stalled (js ''Acme'') Company) =
     Inl (Error (js ''Research timed out. The request is taking longer than expected.''))
   \<and> length (snd (researchTask api_stalled (js ''Acme'') Company)) = 30"
    by blast
  from c6 have d: "\<forall>n. 1 \<le> n \<and> n \<le> length (snd (researchTask api_stalled (js ''Acme'') Company)) \<longrightarrow>
         snd (researchTask api_stalled (js ''Acme'') Company) ! (n - 1)
           = min (2000 * (3 / 2) ^ (n - 1)) 30000"
    by blast
  have "snd (researchTask api_stalled (js ''Acme'') Company) ! (4 - 1) = min (2000 * (3 / 2) ^ (4 - 1)) 30000"
    using d a by (intro d [rule_format]) simp
  moreover have "snd (researchTask api_stalled (js ''Acme'') Company) ! (30 - 1)
      = min (2000 * (3 / 2) ^ (30 - 1)) 30000"
    using d a by (intro d [rule_format]) simp
  ultimately show ?thesis using a by (simp add: power_numeral_reduce)
qed

section \<open>Properties of the stored collections\<close>

lemma key_neq [simp]:
  "js ''pending-leads'' \<noteq> js ''pending-company-leads''"
  "js ''pending-leads'' \<noteq> js ''search-history''"
  "js ''pending-company-leads'' \<noteq> js ''search-history''"
  "js ''pending-company-leads'' \<noteq> js ''pending-leads''"
  "js ''search-history'' \<noteq> js ''pending-leads''"
  "js ''search-history'' \<noteq> js ''pending-company-leads''"
  by (simp_all add: js_def)















lemma fillerLeads_length [simp]: "length (fillerLeads n) = n"
  by (simp add: fillerLeads_def)



lemma fillerCompanies_length [simp]: "length (fillerCompanies n) = n"
  by (simp add: fillerCompanies_def)


lemma pending_empty [simp]:
  "pendingLeads empty_kvs = []" "pendingCompanyLeads empty_kvs = []" "searchHistory empty_kvs = []"
  by (simp_all add: pendingLeads_def pendingCompanyLeads_def searchHistory_def empty_kvs_def)







section \<open>Properties of the consumer\<close>

lemma keys_differ [simp]: "resultKey r \<noteq> jobKey r" "jobKey r \<noteq> resultKey r"
  by (simp_all add: resultKey_def jobKey_def js_def)

lemma handler_failure:
  assumes "fault s = None" and "researchAndPublish api cf clk payload = Inl e"
  shows "handler api cf clk payload s =
     Inr (s\<lparr> entries := (entries s)
            (resultKey (ev_researchId payload) \<mapsto> VResult (failedResult_record clk payload e),
             jobKey (ev_researchId payload) \<mapsto> VJob (failedJob clk payload e)) \<rparr>)"
  using assms by (simp add: handler_def handlerTry_def kvs_set_def)

lemma handler_success:
  assumes "fault s = None" and "researchAndPublish api cf clk payload = Inr p"
  shows "handler api cf clk payload s =
     Inr (s\<lparr> entries := (entries s)
            (resultKey (ev_researchId payload) \<mapsto> VResult (completedResult_record clk payload p),
             jobKey (ev_researchId payload) \<mapsto> VJob (completedJob clk payload p)) \<rparr>)"
  using assms by (simp add: handler_def handlerTry_def kvs_set_def)

lemma researchTask_three_polls:
  "researchTask api_three_polls query entityType = (Inr report_three_polls, [2000, 3000, 4500])"
proof -
  have k: "truthy (exaApiKey api_three_polls)"
    by (simp add: api_three_polls_def truthy_def)
  have "researchTask api_three_polls query entityType =
      (Inr (completedResult \<lparr> gr_status = Completed, gr_output = Some (js ''Report.''),
           gr_sources = Some [\<lparr> src_url = js ''http://a'', src_title = js ''A'' \<rparr>,
                              \<lparr> src_url = js ''http://b'', src_title = js ''B'' \<rparr>],
           gr_error = None \<rparr>), [2000, 3000, 4500])"
    by (rule three_polls_run [OF k, where
        created = "\<lparr> cr_researchId = js ''r1'', cr_status = Pending \<rparr>"
        and ?r1.0 = "\<lparr> gr_status = Running, gr_output = None, gr_sources = None, gr_error = None \<rparr>"
        and ?r2.0 = "\<lparr> gr_status = Running, gr_output = None, gr_sources = None, gr_error = None \<rparr>"])
       (simp_all add: api_three_polls_def)
  then show ?thesis
    by (simp add: completedResult_eq or_else_def numberedLinks_def show_nat.simps js_def nl_def
          upt_rec report_three_polls_def)
qed

lemma exa_three_polls:
  "exaDeepResearch api_three_polls query entityType = Inr report_three_polls"
  by (simp add: exaDeepResearch_def researchTask_three_polls)

lemma publish_one_space:
  "researchAndPublish api_three_polls cf_one_space clock0 event_r1 =
     Inr \<lparr> pageId = js ''77'', pageUrl = js ''/spaces/DOCS/pages/77'', title = js ''Research: Ada'' \<rparr>"
  by (simp add: researchAndPublish_def exa_three_polls event_r1_def targetSpace_def truthy_def
        getDefaultSpaceKeyAsApp_def getSpacesAsApp_def cf_one_space_def createPageAsApp_def
        Let_def js_def)

lemma publish_no_space:
  "researchAndPublish api_three_polls cf_no_space clock0 event_r1 =
     Inl (Error (js ''No Confluence spaces available. Please create a space first.''))"
  by (simp add: researchAndPublish_def exa_three_polls event_r1_def targetSpace_def truthy_def
        getDefaultSpaceKeyAsApp_def getSpacesAsApp_def cf_no_space_def Let_def)

lemma store_failed_r1_ok: "fault store_failed_r1 = None"
  by (simp add: store_failed_r1_def)

text \<open>
  Claim C1 as stated fails: the job of \<open>r1\<close> is stored as failed, the event is delivered
  again, this time research and page creation succeed, and the stored status becomes
  completed.
\<close>

theorem C1_redelivery_overwrites_counterexample:
  "storedStatus store_failed_r1 (js ''r1'') = Some StatusFailed
   \<and> statusAfter (handler api_three_polls cf_one_space clock0 event_r1 store_failed_r1) (js ''r1'')
       = Some StatusCompleted"
  by (simp add: handler_success [OF store_failed_r1_ok publish_one_space] statusAfter_def
        storedStatus_def completedJob_def) (simp add: store_failed_r1_def failedJob_def event_r1_def)

text \<open>
  Claim C1, amended. The handler does not read the stored job record. With the store in
  working order, every delivery ends with a terminal status stored for its research id,
  decided by that delivery alone: completed when research, choice of space and page
  creation succeed, failed otherwise. So a re-delivery to a job that is already terminal
  leaves the status as it was exactly when it ends the same way.
\<close>

theorem C1_status_decided_by_delivery:
  assumes "fault s = None"
  shows "statusAfter (handler api cf clk payload s) (ev_researchId payload) =
           Some (case researchAndPublish api cf clk payload of
                   Inl e \<Rightarrow> StatusFailed | Inr p \<Rightarrow> StatusCompleted)"
  by (cases "researchAndPublish api cf clk payload")
     (simp_all add: handler_failure [OF assms] handler_success [OF assms] statusAfter_def
        storedStatus_def failedJob_def completedJob_def)

theorem C1_status_decided_by_delivery_witness:
  "statusAfter (handler api_three_polls cf_one_space clock0 event_r1 store_failed_r1) (js ''r1'')
       = Some StatusCompleted
   \<and> statusAfter (handler api_three_polls cf_no_space clock0 event_r1 store_failed_r1) (js ''r1'')
       = Some StatusFailed"
  using C1_status_decided_by_delivery [OF store_failed_r1_ok, of api_three_polls cf_one_space clock0 event_r1]
    C1_status_decided_by_delivery [OF store_failed_r1_ok, of api_three_polls cf_no_space clock0 event_r1]
  by (simp add: publish_one_space publish_no_space) (simp add: event_r1_def)

lemma handler_store_down:
  "fault s = Some e \<Longrightarrow> handler api cf clk payload s = Inl e"
  by (simp add: handler_def handlerTry_def kvs_set_def split: sum.splits)

text \<open>
  Claim C8 as stated fails. With the store down, the writes of the \<open>catch\<close> reject as
  well: the handler throws back to the queue and no record is written, both when a step
  has thrown (no space is listed) and when every step has succeeded.
\<close>

theorem C8_store_down_counterexample:
  "handler api_three_polls cf_no_space clock0 event_r1 store_down = Inl (Error (js ''KVS down''))
   \<and> researchAndPublish api_three_polls cf_one_space clock0 event_r1 =
       Inr \<lparr> pageId = js ''77'', pageUrl = js ''/spaces/DOCS/pages/77'', title = js ''Research: Ada'' \<rparr>
   \<and> handler api_three_polls cf_one_space clock0 event_r1 store_down = Inl (Error (js ''KVS down''))"
  by (simp add: handler_store_down store_down_def publish_one_space)

text \<open>
  Claim C8, amended. With the store in working order the handler never throws. When a step
  throws (the research; the choice of a space, when none is configured and none is listed;
  the creation of the page, when it yields nothing), the handler stores the job record with
  status failed, the message of the exception (\<open>Unknown error\<close> for a thrown value
  that is no \<open>Error\<close>) and \<open>completedAt\<close>. When every step succeeds it stores status
  completed with \<open>pageUrl\<close>, \<open>pageTitle\<close> and \<open>completedAt\<close>.
\<close>

theorem C8_handler_catches_and_records:
  assumes "fault s = None"
  shows
   "(\<exists>s'. handler api cf clk payload s = Inr s')
    \<and> (\<forall>e. researchAndPublish api cf clk payload = Inl e \<longrightarrow>
          (\<exists>s' j. handler api cf clk payload s = Inr s'
             \<and> entries s' (jobKey (ev_researchId payload)) = Some (VJob j)
             \<and> job_status j = StatusFailed \<and> job_error j = Some (error_message e)
             \<and> job_completedAt j = Some (jobTime clk)
             \<and> job_pageUrl j = None \<and> job_pageTitle j = None))
    \<and> (\<forall>p. researchAndPublish api cf clk payload = Inr p \<longrightarrow>
          (\<exists>s' j. handler api cf clk payload s = Inr s'
             \<and> entries s' (jobKey (ev_researchId payload)) = Some (VJob j)
             \<and> job_status j = StatusCompleted \<and> job_pageUrl j = Some (pageUrl p)
             \<and> job_pageTitle j = Some (title p) \<and> job_completedAt j = Some (jobTime clk)
             \<and> job_error j = None))
    \<and> (\<forall>e. exaDeepResearch api (ev_query payload) (ev_entityType payload) = Inl e \<longrightarrow>
          researchAndPublish api cf clk payload = Inl e)
    \<and> (\<forall>out. exaDeepResearch api (ev_query payload) (ev_entityType payload) = Inr out
          \<and> \<not> truthy (ev_spaceKey payload) \<and> getSpacesAsApp cf 0 = [] \<and> getSpacesAsApp cf 1 = [] \<longrightarrow>
          researchAndPublish api cf clk payload =
            Inl (Error (js ''No Confluence spaces available. Please create a space first.'')))
    \<and> (\<forall>out key. exaDeepResearch api (ev_query payload) (ev_entityType payload) = Inr out
          \<and> targetSpace cf (ev_spaceKey payload) = Inr key
          \<and> createPageAsApp cf
               \<lparr> o_spaceKey = key, o_title = js ''Research: '' @ ev_query payload,
                 o_body = convertResearchToStorageFormat (MdString out) (ev_query payload)
                            (ev_entityType payload) (bannerDate clk),
                 o_parentId = None, o_format = Some (js ''storage'') \<rparr> = None \<longrightarrow>
          researchAndPublish api cf clk payload =
            Inl (Error (js ''Failed to create Confluence page'')))"
proof (intro conjI allI impI)
  show "\<exists>s'. handler api cf clk payload s = Inr s'"
    by (cases "researchAndPublish api cf clk payload")
       (simp_all add: handler_failure [OF assms] handler_success [OF assms])
next
  fix e assume "researchAndPublish api cf clk payload = Inl e"
  from handler_failure [OF assms this]
  show "\<exists>s' j. handler api cf clk payload s = Inr s'
             \<and> entries s' (jobKey (ev_researchId payload)) = Some (VJob j)
             \<and> job_status j = StatusFailed \<and> job_error j = Some (error_message e)
             \<and> job_completedAt j = Some (jobTime clk)
             \<and> job_pageUrl j = None \<and> job_pageTitle j = None"
    by (simp add: failedJob_def)
next
  fix p assume "researchAndPublish api cf clk payload = Inr p"
  from handler_success [OF assms this]
  show "\<exists>s' j. handler api cf clk payload s = Inr s'
             \<and> entries s' (jobKey (ev_researchId payload)) = Some (VJob j)
             \<and> job_status j = StatusCompleted \<and> job_pageUrl j = Some (pageUrl p)
             \<and> job_pageTitle j = Some (title p) \<and> job_completedAt j = Some (jobTime clk)
             \<and> job_error j = None"
    by (simp add: completedJob_def)
next
  fix e assume "exaDeepResearch api (ev_query payload) (ev_entityType payload) = Inl e"
  then show "researchAndPublish api cf clk payload = Inl e"
    by (simp add: researchAndPublish_def)
next
  fix out
  assume "exaDeepResearch api (ev_query payload) (ev_entityType payload) = Inr out
          \<and> \<not> truthy (ev_spaceKey payload) \<and> getSpacesAsApp cf 0 = [] \<and> getSpacesAsApp cf 1 = []"
  then show "researchAndPublish api cf clk payload =
            Inl (Error (js ''No Confluence spaces available. Please create a space first.''))"
    by (simp add: researchAndPublish_def targetSpace_def getDefaultSpaceKeyAsApp_def truthy_def)
next
  fix out key
  assume "exaDeepResearch api (ev_query payload) (ev_entityType payload) = Inr out
          \<and> targetSpace cf (ev_spaceKey payload) = Inr key
          \<and> createPageAsApp cf
               \<lparr> o_spaceKey = key, o_title = js ''Research: '' @ ev_query payload,
                 o_body = convertResearchToStorageFormat (MdString out) (ev_query payload)
                            (ev_entityType payload) (bannerDate clk),
                 o_parentId = None, o_format = Some (js ''storage'') \<rparr> = None"
  then show "researchAndPublish api cf clk payload =
            Inl (Error (js ''Failed to create Confluence page''))"
    by (simp add: researchAndPublish_def)
qed

theorem C8_handler_catches_and_records_witness:
  "(\<exists>s' j. handler api_three_polls cf_no_space clock0 event_r1 store_failed_r1 = Inr s'
       \<and> entries s' (jobKey (js ''r1'')) = Some (VJob j)
       \<and> job_status j = StatusFailed
       \<and> job_error j = Some (js ''No Confluence spaces available. Please create a space first.'')
       \<and> job_completedAt j = Some (js ''2025-01-02T00:00:00.001Z''))
   \<and> (\<exists>s' j. handler api_three_polls cf_one_space clock0 event_r1 store_failed_r1 = Inr s'
       \<and> entries s' (jobKey (js ''r1'')) = Some (VJob j)
       \<and> job_status j = StatusCompleted
       \<and> job_pageUrl j = Some (js ''/spaces/DOCS/pages/77'')
       \<and> job_pageTitle j = Some (js ''Research: Ada'')
       \<and> job_completedAt j = Some (js ''2025-01-02T00:00:00.001Z''))"
proof -
  note a = C8_handler_catches_and_records [OF store_failed_r1_ok, of api_three_polls cf_no_space clock0 event_r1]
  note b = C8_handler_catches_and_records [OF store_failed_r1_ok, of api_three_polls cf_one_space clock0 event_r1]
  from a have "\<forall>e. researchAndPublish api_three_polls cf_no_space clock0 event_r1 = Inl e \<longrightarrow>
          (\<exists>s' j. handler api_three_polls cf_no_space clock0 event_r1 store_failed_r1 = Inr s'
             \<and> entries s' (jobKey (ev_researchId event_r1)) = Some (VJob j)
             \<and> job_status j = StatusFailed \<and> job_error j = Some (error_message e)
             \<and> job_completedAt j = Some (jobTime clock0)
             \<and> job_pageUrl j = None \<and> job_pageTitle j = None)"
    by blast
  from this [rule_format, OF publish_no_space]
  have 1: "\<exists>s' j. handler api_three_polls cf_no_space clock0 event_r1 store_failed_r1 = Inr s'
       \<and> entries s' (jobKey (js ''r1'')) = Some (VJob j)
       \<and> job_status j = StatusFailed
       \<and> job_error j = Some (js ''No Confluence spaces available. Please create a space first.'')
       \<and> job_completedAt j = Some (js ''2025-01-02T00:00:00.001Z'')"
    by (auto simp: event_r1_def clock0_def error_message_def)
  from b have "\<forall>p. researchAndPublish api_three_polls cf_one_space clock0 event_r1 = Inr p \<longrightarrow>
          (\<exists>s' j. handler api_three_polls cf_one_space clock0 event_r1 store_failed_r1 = Inr s'
             \<and> entries s' (jobKey (ev_researchId event_r1)) = Some (VJob j)
             \<and> job_status j = StatusCompleted \<and> job_pageUrl j = Some (pageUrl p)
             \<and> job_pageTitle j = Some (title p) \<and> job_completedAt j = Some (jobTime clock0)
             \<and> job_error j = None)"
    by blast
  from this [rule_format, OF publish_one_space]
  have 2: "\<exists>s' j. handler api_three_polls cf_one_space clock0 event_r1 store_failed_r1 = Inr s'
       \<and> entries s' (jobKey (js ''r1'')) = Some (VJob j)
       \<and> job_status j = StatusCompleted
       \<and> job_pageUrl j = Some (js ''/spaces/DOCS/pages/77'')
       \<and> job_pageTitle j = Some (js ''Research: Ada'')
       \<and> job_completedAt j = Some (js ''2025-01-02T00:00:00.001Z'')"
    by (auto simp: event_r1_def clock0_def)
  from 1 2 show ?thesis by (rule conjI)
qed

section \<open>Properties of the actions\<close>

lemma show_nat_value: "digitsValue (show_nat n) = n"
proof (induction n rule: show_nat.induct)
  case (1 n)
  show ?case
  proof (cases "n < 10")
    case True
    then show ?thesis by (subst show_nat.simps) (simp add: digitsValue_def)
  next
    case False
    with 1 have "digitsValue (show_nat (n div 10)) = n div 10" by simp
    with False show ?thesis
      by (subst show_nat.simps) (simp add: digitsValue_def)
  qed
qed

lemma show_nat_digits: "c \<in> set (show_nat n) \<Longrightarrow> 48 \<le> c \<and> c \<le> 57"
proof (induction n rule: show_nat.induct)
  case (1 n)
  from "1.prems" show ?case
    by (subst (asm) show_nat.simps) (use 1 in \<open>auto split: if_splits\<close>)
qed

lemma show_nat_inj: "show_nat a = show_nat b \<Longrightarrow> a = b"
  by (metis show_nat_value)

lemma newResearchId_inj:
  assumes "newResearchId a r = newResearchId b r'"
  shows "a = b \<and> r = r'"
proof -
  from assms have e: "show_nat a @ 45 # r = show_nat b @ 45 # r'"
    by (simp add: newResearchId_def js_def)
  have t: "\<And>n x. takeWhile (\<lambda>c. c \<noteq> 45) (show_nat n @ 45 # x) = show_nat n"
    using show_nat_digits by (subst takeWhile_append2) fastforce+
  from e have "takeWhile (\<lambda>c. c \<noteq> 45) (show_nat a @ 45 # r)
      = takeWhile (\<lambda>c. c \<noteq> 45) (show_nat b @ 45 # r')" by simp
  then have s: "show_nat a = show_nat b" by (simp only: t)
  then have "a = b" by (rule show_nat_inj)
  moreover from e s have "r = r'" by simp
  ultimately show ?thesis by simp
qed

text \<open>
  Claim C9 as stated fails. Two dispatches at one clock reading with one random draw get
  the same research id: both messages carry it, and the job record of the second replaces
  the one of the first. And when the queue rejects the push, or the store is down, the
  action returns its error message with nothing enqueued and nothing stored.
\<close>

theorem C9_same_id_and_rejections_counterexample:
  "map ev_researchId (snd (snd dispatched_twice))
     = [js ''research-1700000000000-k3j9x0a1b'', js ''research-1700000000000-k3j9x0a1b'']
   \<and> map ev_query (snd (snd dispatched_twice)) = [js ''Acme'', js ''Ada'']
   \<and> dom (entries (fst (snd dispatched_twice))) = {jobKey (js ''research-1700000000000-k3j9x0a1b'')}
   \<and> storedQuery (fst (snd dispatched_twice)) (js ''research-1700000000000-k3j9x0a1b'')
       = Some (js ''Ada'')
   \<and> deepResearch_async env_push_rejected payload_acme (empty_kvs, [])
       = (queueingError (Error (js ''queue down'')), empty_kvs, [])
   \<and> deepResearch_async env0 payload_acme (store_down, [])
       = (queueingError (Error (js ''KVS down'')), store_down, [])"
proof (intro conjI)
  have one: "snd (deepResearch_async env0 payload_acme (empty_kvs, [])) =
      (empty_kvs\<lparr> entries := (entries empty_kvs)(jobKey (js ''research-1700000000000-k3j9x0a1b'') \<mapsto>
                 VJob \<lparr> job_query = js ''Acme'', job_entityType = Company,
                        job_userId = js ''c1'', job_cloudId = js ''c1'',
                        job_jobId = Some (js ''job-1''), job_status = StatusQueued,
                        job_createdAt = Some (js ''2023-11-14T22:13:20.000Z''),
                        job_pageUrl = None, job_pageTitle = None,
                        job_error = None, job_completedAt = None \<rparr>) \<rparr>,
      [\<lparr> ev_query = js ''Acme'', ev_entityType = Company, ev_userId = js ''c1'',
         ev_cloudId = js ''c1'', ev_spaceKey = None,
         ev_researchId = js ''research-1700000000000-k3j9x0a1b'' \<rparr>])"
    by (simp add: deepResearch_async_def invalidQuery_def invalidEntityType_def truthy_def trim_def
          isWhiteSpace_def isLineTerminator_def Let_def kvs_get_def kvs_set_def
          payload_acme_def empty_kvs_def env0_def or_else_def entityTypeOf_def
          newResearchId_def show_nat.simps js_def)
  have two: "snd dispatched_twice =
      (empty_kvs\<lparr> entries := (entries empty_kvs)(jobKey (js ''research-1700000000000-k3j9x0a1b'') \<mapsto>
                 VJob \<lparr> job_query = js ''Ada'', job_entityType = Person,
                        job_userId = js ''c1'', job_cloudId = js ''c1'',
                        job_jobId = Some (js ''job-1''), job_status = StatusQueued,
                        job_createdAt = Some (js ''2023-11-14T22:13:20.000Z''),
                        job_pageUrl = None, job_pageTitle = None,
                        job_error = None, job_completedAt = None \<rparr>) \<rparr>,
      [\<lparr> ev_query = js ''Acme'', ev_entityType = Company, ev_userId = js ''c1'',
         ev_cloudId = js ''c1'', ev_spaceKey = None,
         ev_researchId = js ''research-1700000000000-k3j9x0a1b'' \<rparr>,
       \<lparr> ev_query = js ''Ada'', ev_entityType = Person, ev_userId = js ''c1'',
         ev_cloudId = js ''c1'', ev_spaceKey = None,
         ev_researchId = js ''research-1700000000000-k3j9x0a1b'' \<rparr>])"
    unfolding dispatched_twice_def one
    by (simp add: deepResearch_async_def invalidQuery_def invalidEntityType_def truthy_def trim_def
          isWhiteSpace_def isLineTerminator_def Let_def kvs_get_def kvs_set_def
          payload_ada_def empty_kvs_def env0_def or_else_def entityTypeOf_def
          newResearchId_def show_nat.simps js_def jobKey_def)
  show "map ev_researchId (snd (snd dispatched_twice))
     = [js ''research-1700000000000-k3j9x0a1b'', js ''research-1700000000000-k3j9x0a1b'']"
    by (simp add: two)
  show "map ev_query (snd (snd dispatched_twice)) = [js ''Acme'', js ''Ada'']"
    by (simp add: two)
  show "dom (entries (fst (snd dispatched_twice))) = {jobKey (js ''research-1700000000000-k3j9x0a1b'')}"
    by (simp add: two empty_kvs_def)
  show "storedQuery (fst (snd dispatched_twice)) (js ''research-1700000000000-k3j9x0a1b'')
       = Some (js ''Ada'')"
    by (simp add: two storedQuery_def)
  show "deepResearch_async env_push_rejected payload_acme (empty_kvs, [])
       = (queueingError (Error (js ''queue down'')), empty_kvs, [])"
    by (simp add: deepResearch_async_def invalidQuery_def invalidEntityType_def truthy_def trim_def
          isWhiteSpace_def isLineTerminator_def Let_def kvs_get_def
          empty_kvs_def env_push_rejected_def payload_acme_def entityTypeOf_def js_def)
  show "deepResearch_async env0 payload_acme (store_down, [])
       = (queueingError (Error (js ''KVS down'')), store_down, [])"
    by (simp add: deepResearch_async_def invalidQuery_def invalidEntityType_def truthy_def trim_def
          isWhiteSpace_def isLineTerminator_def Let_def kvs_get_def store_down_def
          payload_acme_def entityTypeOf_def js_def)
qed

text \<open>
  Claim C9, amended. For a payload that passes the validation (a query that is not blank,
  an entity type \<open>person\<close> or \<open>company\<close>), with the store in working order and the
  push acknowledged, the asynchronous action builds the id \<open>research-<ms>-<random>\<close>
  (the id names one pair of clock reading and random draw, and is unique no further than
  that), appends to the queue the message with query, entity type, user and cloud id,
  configured space and research id, and stores under the id the job record with status
  queued, the same query and entity type, the job id and \<open>createdAt\<close>. It is given no
  research client, so it returns without the research.
\<close>

theorem C9_async_dispatch:
  assumes "p_query payload = Some query" and "trim query \<noteq> []"
    and "p_entityType payload = Some t" and "t = js ''person'' \<or> t = js ''company''"
    and "fault s = None"
    and "cloudId = or_else (p_cloudId payload) (js ''unknown'')"
    and "spaceKey = (case entries s (js ''tofu-config'') of
                       Some (VConfig c) \<Rightarrow> defaultConfluenceSpace c | _ \<Rightarrow> None)"
    and "researchId = newResearchId (dateNow env) (random36 env)"
    and "body = \<lparr> ev_query = query, ev_entityType = the (entityTypeOf t), ev_userId = cloudId,
                  ev_cloudId = cloudId, ev_spaceKey = spaceKey, ev_researchId = researchId \<rparr>"
    and "pushAnswer env body = Inr jobId"
  shows "deepResearch_async env payload (s, queue) =
           (queuedMessage (the (entityTypeOf t)) query spaceKey researchId,
            s\<lparr> entries := (entries s)(jobKey researchId \<mapsto>
                 VJob \<lparr> job_query = query, job_entityType = the (entityTypeOf t),
                        job_userId = cloudId, job_cloudId = cloudId,
                        job_jobId = Some jobId, job_status = StatusQueued,
                        job_createdAt = Some (createdTime env),
                        job_pageUrl = None, job_pageTitle = None,
                        job_error = None, job_completedAt = None \<rparr>) \<rparr>,
            queue @ [body])
     \<and> (\<forall>now rnd. newResearchId now rnd = researchId \<longrightarrow> now = dateNow env \<and> rnd = random36 env)"
proof
  have q: "\<not> invalidQuery (p_query payload)"
    using assms(1,2) by (auto simp: invalidQuery_def truthy_def trim_def)
  have e: "\<not> invalidEntityType (p_entityType payload)"
    using assms(3,4) by (auto simp: invalidEntityType_def truthy_def entityTypeOf_def js_def)
  show "deepResearch_async env payload (s, queue) =
           (queuedMessage (the (entityTypeOf t)) query spaceKey researchId,
            s\<lparr> entries := (entries s)(jobKey researchId \<mapsto>
                 VJob \<lparr> job_query = query, job_entityType = the (entityTypeOf t),
                        job_userId = cloudId, job_cloudId = cloudId,
                        job_jobId = Some jobId, job_status = StatusQueued,
                        job_createdAt = Some (createdTime env),
                        job_pageUrl = None, job_pageTitle = None,
                        job_error = None, job_completedAt = None \<rparr>) \<rparr>,
            queue @ [body])"
    using q e assms(1,3,5) assms(10) [unfolded assms(9) assms(8) assms(7) assms(6)]
    unfolding assms(9) assms(8) assms(7) assms(6)
    by (simp add: deepResearch_async_def kvs_get_def kvs_set_def Let_def)
  show "\<forall>now rnd. newResearchId now rnd = researchId \<longrightarrow> now = dateNow env \<and> rnd = random36 env"
    unfolding assms(8) using newResearchId_inj by blast
qed

theorem C9_async_dispatch_witness:
  "deepResearch_async env0 payload_acme (empty_kvs, []) =
     (queuedMessage Company (js ''Acme'') None (js ''research-1700000000000-k3j9x0a1b''),
      empty_kvs\<lparr> entries := (entries empty_kvs)(jobKey (js ''research-1700000000000-k3j9x0a1b'') \<mapsto>
                 VJob \<lparr> job_query = js ''Acme'', job_entityType = Company,
                        job_userId = js ''c1'', job_cloudId = js ''c1'',
                        job_jobId = Some (js ''job-1''), job_status = StatusQueued,
                        job_createdAt = Some (js ''2023-11-14T22:13:20.000Z''),
                        job_pageUrl = None, job_pageTitle = None,
                        job_error = None, job_completedAt = None \<rparr>) \<rparr>,
      [\<lparr> ev_query = js ''Acme'', ev_entityType = Company, ev_userId = js ''c1'',
         ev_cloudId = js ''c1'', ev_spaceKey = None,
         ev_researchId = js ''research-1700000000000-k3j9x0a1b'' \<rparr>])"
proof -
  have id: "newResearchId (dateNow env0) (random36 env0) = js ''research-1700000000000-k3j9x0a1b''"
    by (simp add: newResearchId_def env0_def show_nat.simps js_def)
  have et: "the (entityTypeOf (js ''company'')) = Company"
    by (simp add: entityTypeOf_def js_def)
  have tr: "trim (js ''Acme'') \<noteq> []"
    by (simp add: trim_def js_def isWhiteSpace_def isLineTerminator_def)
  note c9 = C9_async_dispatch [where payload = payload_acme and query = "js ''Acme''" and t = "js ''company''"
      and s = empty_kvs and env = env0 and cloudId = "js ''c1''" and spaceKey = None
      and researchId = "js ''research-1700000000000-k3j9x0a1b''"
      and jobId = "js ''job-1''" and queue = "[]"
      and body = "\<lparr> ev_query = js ''Acme'', ev_entityType = the (entityTypeOf (js ''company'')),
         ev_userId = js ''c1'', ev_cloudId = js ''c1'', ev_spaceKey = None,
         ev_researchId = js ''research-1700000000000-k3j9x0a1b'' \<rparr>", OF _ tr]
  have "deepResearch_async env0 payload_acme (empty_kvs, []) =
     (queuedMessage (the (entityTypeOf (js ''company''))) (js ''Acme'') None
        (js ''research-1700000000000-k3j9x0a1b''),
      empty_kvs\<lparr> entries := (entries empty_kvs)(jobKey (js ''research-1700000000000-k3j9x0a1b'') \<mapsto>
                 VJob \<lparr> job_query = js ''Acme'', job_entityType = the (entityTypeOf (js ''company'')),
                        job_userId = js ''c1'', job_cloudId = js ''c1'',
                        job_jobId = Some (js ''job-1''), job_status = StatusQueued,
                        job_createdAt = Some (createdTime env0),
                        job_pageUrl = None, job_pageTitle = None,
                        job_error = None, job_completedAt = None \<rparr>) \<rparr>,
      [] @ [\<lparr> ev_query = js ''Acme'', ev_entityType = the (entityTypeOf (js ''company'')),
         ev_userId = js ''c1'', ev_cloudId = js ''c1'', ev_spaceKey = None,
         ev_researchId = js ''research-1700000000000-k3j9x0a1b'' \<rparr>])"
    by (rule c9 [THEN conjunct1])
       (simp_all add: payload_acme_def empty_kvs_def or_else_def id, simp add: env0_def)
  then show ?thesis by (simp add: et env0_def)
qed

lemma researchTask_phrase:
  "researchTask api_phrase query entityType = (Inr report_phrase, [2000])"
proof -
  have k: "truthy (exaApiKey api_phrase)" by (simp add: api_phrase_def truthy_def)
  have "pollLoop api_phrase (js ''r1'') 1 initialDelay =
      (Inr (completedResult \<lparr> gr_status = Completed, gr_output = Some report_phrase,
                                     gr_sources = None, gr_error = None \<rparr>), [initialDelay])"
    by (rule pollLoop_completed [OF k]) (simp_all add: maxAttempts_def api_phrase_def)
  then show ?thesis
    by (simp add: researchTask_def makeExaRequest_def getApiKey_def truthy_def api_phrase_def
          completedResult_def or_else_def report_phrase_def initialDelay_def)
qed

text \<open>
  Claim C10. When the research task itself succeeds (no fallback) and its report contains
  the words \<open>No detailed information found\<close>, the synchronous action returns the
  message of suggestions instead of the report, and the issue action returns the failure
  \<open>Could not find detailed information about "<lead>"\<close> and creates no page.
\<close>

theorem C10_report_with_sentinel_words_discarded:
  assumes "p_query payload = Some query" and "trim query \<noteq> []"
    and "p_entityType payload = Some t" and "entityTypeOf t = Some entityType"
    and "fst (researchTask api query entityType) = Inr report"
    and "includes_js report (js ''No detailed information found'')"
    and "issueKey = Some key" and "key \<noteq> []"
    and "getIssue ua key = Ok issue"
    and "is_labels issue = Some labels" and "js ''tofu-lead'' \<in> set labels"
    and "determineEntityType labels = Some leadType"
    and "leadName = extractLeadName (or_else (is_summary issue) [])"
    and "fst (researchTask api leadName leadType) = Inr leadReport"
    and "includes_js leadReport (js ''No detailed information found'')"
  shows "deepResearch_sync api payload = noInformationMessage entityType
     \<and> performDeepResearch api ua today s issueKey =
         (failure (js ''Could not find detailed information about '' @ dquote @ leadName @ dquote
                     @ js ''. The research may require more specific details.''), [])"
proof
  have q: "\<not> invalidQuery (p_query payload)"
    using assms(1,2) by (auto simp: invalidQuery_def truthy_def trim_def)
  have e: "\<not> invalidEntityType (p_entityType payload)"
    using assms(3,4) by (auto simp: invalidEntityType_def truthy_def entityTypeOf_def js_def)
  have r: "exaDeepResearch api query entityType = Inr report"
    using assms(5) by (simp add: exaDeepResearch_def)
  show "deepResearch_sync api payload = noInformationMessage entityType"
    using q e r assms(1,3,4,6) by (simp add: deepResearch_sync_def)
  have r': "exaDeepResearch api (extractLeadName (or_else (is_summary issue) [])) leadType
      = Inr leadReport"
    using assms(14) unfolding assms(13) by (simp add: exaDeepResearch_def)
  show "performDeepResearch api ua today s issueKey =
         (failure (js ''Could not find detailed information about '' @ dquote @ leadName @ dquote
                     @ js ''. The research may require more specific details.''), [])"
    using assms(7-12,15) r' unfolding assms(13)
    by (simp add: performDeepResearch_def truthy_def getIssueDetails_def Let_def)
qed

theorem C10_report_with_sentinel_words_discarded_witness:
  "fst (researchTask api_phrase (js ''Acme'') Company) = Inr report_phrase
   \<and> deepResearch_sync api_phrase payload_acme = noInformationMessage Company
   \<and> performDeepResearch api_phrase ua_acme (js ''1/2/2025'') empty_kvs (Some (js ''TOFU-1'')) =
       (failure (js ''Could not find detailed information about '' @ dquote @ js ''Acme'' @ dquote
                     @ js ''. The research may require more specific details.''), [])"
proof -
  have inc: "includes_js report_phrase (js ''No detailed information found'')"
    by (simp add: report_phrase_def js_def startsWith_def)
  have tr: "trim (js ''Acme'') \<noteq> []"
    by (simp add: trim_def js_def isWhiteSpace_def isLineTerminator_def)
  have et: "entityTypeOf (js ''company'') = Some Company"
    by (simp add: entityTypeOf_def js_def)
  have rt: "fst (researchTask api_phrase (js ''Acme'') Company) = Inr report_phrase"
    by (simp add: researchTask_phrase)
  have dt: "determineEntityType [js ''tofu-lead'', js ''company''] = Some Company"
    by (simp add: determineEntityType_def js_def)
  have ln: "js ''Acme'' = extractLeadName (or_else (is_summary
      \<lparr> is_summary = Some (js ''[Lead] Acme''), is_labels = Some [js ''tofu-lead'', js ''company''] \<rparr>) [])"
    by (simp add: extractLeadName_def or_else_def dropPrefixIgnoreCase_def js_def upperAscii_def
          trim_def isWhiteSpace_def isLineTerminator_def)
  have "deepResearch_sync api_phrase payload_acme = noInformationMessage Company
     \<and> performDeepResearch api_phrase ua_acme (js ''1/2/2025'') empty_kvs (Some (js ''TOFU-1'')) =
         (failure (js ''Could not find detailed information about '' @ dquote @ js ''Acme'' @ dquote
                     @ js ''. The research may require more specific details.''), [])"
    by (rule C10_report_with_sentinel_words_discarded [where query = "js ''Acme''" and t = "js ''company''" and report = report_phrase
          and key = "js ''TOFU-1''" and leadReport = report_phrase and leadType = Company
          and labels = "[js ''tofu-lead'', js ''company'']"
          and issue = "\<lparr> is_summary = Some (js ''[Lead] Acme''),
                          is_labels = Some [js ''tofu-lead'', js ''company''] \<rparr>",
          OF _ tr _ et rt inc _ _ _ _ _ dt ln rt inc])
       (simp_all add: payload_acme_def ua_acme_def)
  with rt show ?thesis by simp
qed

section \<open>Properties of the content formatter\<close>

lemma replaceGlobal_id:
  "(\<forall>i<length s. m (if i = 0 then prev else Some (s ! (i - 1))) (drop i s) = None)
   \<Longrightarrow> replaceGlobal m prev s = s"
proof (induction s arbitrary: prev)
  case Nil
  then show ?case by simp
next
  case (Cons c cs)
  from Cons.prems have h: "m prev (c # cs) = None"
    by (metis (full_types) drop0 length_greater_0_conv list.discI)
  have "\<forall>i<length cs. m (if i = 0 then Some c else Some (cs ! (i - 1))) (drop i cs) = None"
  proof (intro allI impI)
    fix i assume i: "i < length cs"
    from Cons.prems i have "m (if Suc i = 0 then prev else Some ((c # cs) ! (Suc i - 1)))
        (drop (Suc i) (c # cs)) = None"
      by (metis Suc_less_eq length_Cons)
    then show "m (if i = 0 then Some c else Some (cs ! (i - 1))) (drop i cs) = None"
      by (cases i) simp_all
  qed
  then have "replaceGlobal m (Some c) cs = cs" by (rule Cons.IH)
  with h show ?case by simp
qed

lemma replaceGlobal_no_trigger:
  assumes "\<And>p u. u \<noteq> [] \<Longrightarrow> hd u \<in> set s \<Longrightarrow> m p u = None"
  shows "replaceGlobal m prev s = s"
proof (rule replaceGlobal_id, intro allI impI)
  fix i assume "i < length s"
  then have "drop i s \<noteq> []" "hd (drop i s) \<in> set s"
    by (simp_all add: hd_drop_conv_nth)
  then show "m (if i = 0 then prev else Some (s ! (i - 1))) (drop i s) = None"
    by (rule assms)
qed

lemma replaceGlobal_line_start:
  assumes "\<forall>c\<in>set s. \<not> isLineTerminator c"
    and "m None s = None"
    and "\<And>p u. \<not> atLineStart p \<Longrightarrow> m p u = None"
  shows "replaceGlobal m None s = s"
proof (rule replaceGlobal_id, intro allI impI)
  fix i assume i: "i < length s"
  show "m (if i = 0 then None else Some (s ! (i - 1))) (drop i s) = None"
  proof (cases "i = 0")
    case True
    then show ?thesis using assms(2) by simp
  next
    case False
    with i have "s ! (i - 1) \<in> set s" by simp
    with assms(1) have "\<not> atLineStart (Some (s ! (i - 1)))"
      by (simp add: atLineStart_def)
    with False show ?thesis by (simp add: assms(3))
  qed
qed

lemma startsWith_hd: "p \<noteq> [] \<Longrightarrow> startsWith u p \<Longrightarrow> u \<noteq> [] \<and> hd u = hd p"
  by (cases u; cases p) (auto simp: startsWith_def)

lemma splitParagraphs_single: "10 \<notin> set t \<Longrightarrow> splitParagraphs t = [t]"
  by (induction t) auto

lemma replaceChar_absent: "c \<notin> set t \<Longrightarrow> replaceChar c rep t = t"
  by (induction t) (auto simp: replaceChar_def)

lemma trim_id: "t \<noteq> [] \<Longrightarrow> \<not> isWhiteSpace (hd t) \<Longrightarrow> \<not> isWhiteSpace (last t) \<Longrightarrow> trim t = t"
proof -
  assume a: "t \<noteq> []" "\<not> isWhiteSpace (hd t)" "\<not> isWhiteSpace (last t)"
  then have 1: "dropWhile isWhiteSpace t = t"
    by (cases t) simp_all
  from a have "rev t \<noteq> []" "\<not> isWhiteSpace (hd (rev t))"
    by (simp_all add: hd_rev)
  then have 2: "dropWhile isWhiteSpace (rev t) = rev t"
    by (cases "rev t") simp_all
  show ?thesis by (simp add: trim_def 1 2)
qed

lemma convertContent_plain:
  assumes "plainText t"
  shows "convertContent t = js ''<p>'' @ t @ js ''</p>''"
proof -
  from assms have ne: "t \<noteq> []"
    and ch: "\<forall>c\<in>set t. c \<noteq> 42 \<and> c \<noteq> 91 \<and> \<not> isLineTerminator c"
    and h: "hd t \<noteq> 35" "hd t \<noteq> 45" "hd t \<noteq> 8226" "\<not> isDigit (hd t)"
    and ws: "\<not> isWhiteSpace (hd t)" "\<not> isWhiteSpace (last t)"
    and tags: "\<not> startsWith t (js ''<h'')" "\<not> startsWith t (js ''<ul'')"
      "\<not> startsWith t (js ''<ol'')" "\<not> startsWith t (js ''<hr'')" "\<not> startsWith t (js ''<p'')"
    by (simp_all add: plainText_def)
  have lt: "\<forall>c\<in>set t. \<not> isLineTerminator c" using ch by blast
  have c1: "replaceGlobal matchBold None t = t"
  proof (rule replaceGlobal_no_trigger)
    fix p u assume "u \<noteq> []" "hd u \<in> set t"
    with ch have "hd u \<noteq> 42" by blast
    then have "\<not> startsWith u (js ''**'')"
      using startsWith_hd [of "js ''**''" u] by (auto simp: js_def)
    then show "matchBold p u = None" by (simp add: matchBold_def)
  qed
  have c2: "replaceGlobal matchItalic None t = t"
  proof (rule replaceGlobal_no_trigger)
    fix p u assume "u \<noteq> []" "hd u \<in> set t"
    with ch have "hd u \<noteq> 42" by blast
    then have "\<not> startsWith u (js ''*'')"
      using startsWith_hd [of "js ''*''" u] by (auto simp: js_def)
    then show "matchItalic p u = None" by (simp add: matchItalic_def)
  qed
  have hd_pre: "\<And>pre. pre \<noteq> [] \<Longrightarrow> hd pre = 35 \<Longrightarrow> \<not> startsWith t pre"
    using h(1) startsWith_hd by metis
  have heading: "\<And>pre tag. pre \<noteq> [] \<Longrightarrow> hd pre = 35 \<Longrightarrow>
      replaceGlobal (matchHeading pre tag) None t = t"
    by (rule replaceGlobal_line_start [OF lt]) (simp_all add: matchHeading_def hd_pre)
  have c3: "replaceGlobal (matchHeading (js ''### '') (js ''h3'')) None t = t"
    by (rule heading) (simp_all add: js_def)
  have c4: "replaceGlobal (matchHeading (js ''## '') (js ''h2'')) None t = t"
    by (rule heading) (simp_all add: js_def)
  have c5: "replaceGlobal (matchHeading (js ''# '') (js ''h1'')) None t = t"
    by (rule heading) (simp_all add: js_def)
  have nb: "matchBulletLine t = None"
  proof -
    have "\<not> startsWith t (js ''- '')"
      using h(2) startsWith_hd [of "js ''- ''" t] by (auto simp: js_def)
    moreover have "\<not> startsWith t (bullet @ js '' '')"
      using h(3) startsWith_hd [of "bullet @ js '' ''" t] by (auto simp: js_def bullet_def)
    ultimately show ?thesis by (simp add: matchBulletLine_def)
  qed
  have c6: "replaceGlobal matchBulletList None t = t"
    by (rule replaceGlobal_line_start [OF lt])
       (simp_all add: matchBulletList_def lineRun.simps [of matchBulletLine t] nb)
  have nn: "matchNumberLine t = None"
    using ne h(4) by (cases t) (simp_all add: matchNumberLine_def)
  have c7: "replaceGlobal matchNumberList None t = t"
    by (rule replaceGlobal_line_start [OF lt])
       (simp_all add: matchNumberList_def lineRun.simps [of matchNumberLine t] nn)
  have c8: "replaceGlobal matchLink None t = t"
  proof (rule replaceGlobal_no_trigger)
    fix p u assume "u \<noteq> []" "hd u \<in> set t"
    with ch have "hd u \<noteq> 91" by blast
    then have "\<not> startsWith u (js ''['')"
      using startsWith_hd [of "js ''[''" u] by (auto simp: js_def)
    then show "matchLink p u = None" by (simp add: matchLink_def)
  qed
  have nr: "matchRule None t = None"
    using ne h(2) by (cases t) (simp_all add: matchRule_def)
  have c9: "replaceGlobal matchRule None t = t"
    by (rule replaceGlobal_line_start [OF lt]) (simp_all add: nr, simp add: matchRule_def)
  have nl: "10 \<notin> set t" using ch by (auto simp: isLineTerminator_def)
  have w: "wrapParagraph t = js ''<p>'' @ t @ js ''</p>''"
    using ne tags by (simp add: wrapParagraph_def trim_id [OF ne ws] replaceChar_absent [OF nl])
  show ?thesis
    by (simp add: convertContent_def c1 c2 c3 c4 c5 c6 c7 c8 c9 splitParagraphs_single [OF nl] w)
qed

lemma replaceChar_set:
  "set (replaceChar c rep s) = (set s - {c}) \<union> (if c \<in> set s then set rep else {})"
  by (induction s) (auto simp: replaceChar_def)

lemma escapeHtml_clean: "set (escapeHtml text) \<inter> {60, 62, 34, 39} = {}"
  by (auto simp: escapeHtml_def replaceChar_set js_def split: if_splits)

lemma replaceChar_append: "replaceChar c rep (a @ b) = replaceChar c rep a @ replaceChar c rep b"
  by (simp add: replaceChar_def)

lemma escapeHtml_Cons: "escapeHtml (c # cs) = escapeChar c @ escapeHtml cs"
proof -
  have "escapeHtml ([c] @ cs) = escapeHtml [c] @ escapeHtml cs"
    by (simp only: escapeHtml_def replaceChar_append)
  moreover have "escapeHtml [c] = escapeChar c"
    by (simp add: escapeHtml_def escapeChar_def replaceChar_def js_def)
  ultimately show ?thesis by simp
qed

lemma escapeHtml_chars: "escapeHtml s = concat (map escapeChar s)"
  by (induction s) (simp_all add: escapeHtml_Cons, simp add: escapeHtml_def replaceChar_def)

lemma plainText_report_markup: "plainText report_markup"
  by (simp add: plainText_def report_markup_def js_def isLineTerminator_def isWhiteSpace_def
        isDigit_def startsWith_def)

text \<open>
  The lead name is escaped: each of \<open>&\<close>, \<open><\<close>, \<open>>\<close>, \<open>"\<close>, \<open>'\<close> becomes its
  entity, once, and none of \<open><\<close>, \<open>>\<close>, \<open>"\<close>, \<open>'\<close> is left. The report is not: a
  report of one paragraph without markdown appears verbatim between \<open><p>\<close> and
  \<open></p>\<close>.
\<close>

lemma lead_name_escaped_report_verbatim:
  "escapeHtml leadName = concat (map escapeChar leadName)
   \<and> set (escapeHtml leadName) \<inter> {60, 62, 34, 39} = {}
   \<and> (plainText t \<longrightarrow>
        convertResearchToStorageFormat (MdString t) leadName entityType today
          = pageHeader leadName entityType today @ js ''<p>'' @ t @ js ''</p>'' @ pageFooter)"
  by (simp add: escapeHtml_chars [symmetric] escapeHtml_clean convertResearchToStorageFormat_def
        convertContent_plain)

text \<open>
  Claim C4 fails on the code. For the lead \<open>AT&T\<close> and the report
  \<open>AT&T <b>wins</b>\<close> the page carries the lead name escaped, as \<open>AT&amp;T\<close>, in the
  banner and the heading, and the report unescaped, as
  \<open><p>AT&T <b>wins</b></p>\<close>: \<open>escapeHtml\<close> is applied to the lead name and never
  to the report, whose first pass is the bold rule.
\<close>

theorem C4_report_not_escaped:
  "convertResearchToStorageFormat (MdString report_markup) (js ''AT&T'') Company (js ''1/2/2025'')
     = pageHeader (js ''AT&T'') Company (js ''1/2/2025'')
         @ js ''<p>AT&T <b>wins</b></p>'' @ pageFooter
   \<and> escapeHtml (js ''AT&T'') = js ''AT&amp;T''
   \<and> js ''<p>AT&T <b>wins</b></p>'' \<noteq> js ''<p>'' @ escapeHtml report_markup @ js ''</p>''"
proof (intro conjI)
  show "convertResearchToStorageFormat (MdString report_markup) (js ''AT&T'') Company (js ''1/2/2025'')
     = pageHeader (js ''AT&T'') Company (js ''1/2/2025'')
         @ js ''<p>AT&T <b>wins</b></p>'' @ pageFooter"
    by (simp add: convertResearchToStorageFormat_def convertContent_plain [OF plainText_report_markup])
       (simp add: report_markup_def js_def)
  show "escapeHtml (js ''AT&T'') = js ''AT&amp;T''"
    by (simp add: escapeHtml_chars escapeChar_def js_def)
  show "js ''<p>AT&T <b>wins</b></p>'' \<noteq> js ''<p>'' @ escapeHtml report_markup @ js ''</p>''"
    by (simp add: escapeHtml_chars escapeChar_def report_markup_def js_def)
qed

end
